theory Spec2Isabelle
  imports Main
begin

section \<open>Values shared by the pages\<close>

text \<open>
  A JavaScript string is a sequence of UTF-16 code units; \<open>length\<close> is the
  \<^verbatim>\<open>.length\<close> the validation schemas count. Literals of the source are written
  \<open>js ''...''\<close>.
\<close>

type_synonym jsstring = "nat list"

definition js :: "string \<Rightarrow> jsstring" where
  "js s = map of_char s"

text \<open>The Firebase \<^verbatim>\<open>User\<close>: \<^verbatim>\<open>displayName\<close> is \<^verbatim>\<open>string | null\<close>.\<close>

record user =
  uid :: jsstring
  displayName :: "jsstring option"

text \<open>An error thrown by the authentication service or the document store.\<close>

record firebase_error =
  code :: jsstring
  message :: jsstring

text \<open>A settled promise, as \<^verbatim>\<open>Promise.allSettled\<close> and \<^verbatim>\<open>await\<close> in a \<^verbatim>\<open>try\<close> see it.\<close>

datatype 'a settled = Fulfilled 'a | Rejected firebase_error

text \<open>A document of a query snapshot, and the object \<^verbatim>\<open>{ id: doc.id, ...doc.data() }\<close>.\<close>

record 'a snapshot_doc =
  doc_id :: jsstring
  doc_data :: "'a"

record 'a with_id =
  rec_id :: jsstring
  rec_data :: "'a"

definition as_record :: "'a snapshot_doc \<Rightarrow> 'a with_id" where
  "as_record d = \<lparr>rec_id = doc_id d, rec_data = doc_data d\<rparr>"

text \<open>A call of \<^verbatim>\<open>toast({ variant, title, description })\<close>.\<close>

record toast =
  t_destructive :: bool
  t_title :: jsstring
  t_description :: "jsstring option"

text \<open>JavaScript truthiness of \<^verbatim>\<open>string | null\<close>: null and the empty string are falsy.\<close>

fun truthy :: "jsstring option \<Rightarrow> bool" where
  "truthy None = False"
| "truthy (Some s) = (s \<noteq> [])"

text \<open>
  A value written to the document store, and the calls this codebase issues to it.
  A collection name and a field name are constants of the source; a document id is data.
\<close>

datatype fsvalue = Str jsstring | Bool bool | Num int | Null | Undefined | ServerTimestamp

datatype store_call =
    AddDoc string "(string \<times> fsvalue) list"
  | UpdateDoc string jsstring "(string \<times> fsvalue) list"
  | SetDoc string jsstring "(string \<times> fsvalue) list"

definition nullable :: "jsstring option \<Rightarrow> fsvalue" where
  "nullable v = (case v of None \<Rightarrow> Null | Some s \<Rightarrow> Str s)"

definition optional :: "jsstring option \<Rightarrow> fsvalue" where
  "optional v = (case v of None \<Rightarrow> Undefined | Some s \<Rightarrow> Str s)"

text \<open>
  What a handler does to the world outside its component: the toasts it raises, the routes
  it pushes and the calls it issues to the document store, each in order.
\<close>

record effects =
  toasts :: "toast list"
  pushed :: "string list"
  store_calls :: "store_call list"

section \<open>Dashboard: the parallel multi-source fetch\<close>

record ('d, 'n, 'a) dashboard =
  myDoubts :: "'d with_id list"
  myNotes :: "'n with_id list"
  myAnswers :: "'a with_id list"
  doubtsError :: "jsstring option"
  notesError :: "jsstring option"
  answersError :: "jsstring option"
  loading :: bool

text \<open>
  \<^verbatim>\<open>fetchData\<close> of \<^verbatim>\<open>DashboardPage\<close>. \<open>db\<close> says whether the store was
  initialised; the three arguments after the state are what \<^verbatim>\<open>Promise.allSettled\<close>
  resolves to, one settled outcome per \<^verbatim>\<open>getDocs\<close> query, in the order doubts, notes,
  answers.
\<close>

definition fetchData ::
  "bool \<Rightarrow> ('d, 'n, 'a) dashboard \<Rightarrow> 'd snapshot_doc list settled \<Rightarrow> 'n snapshot_doc list settled
     \<Rightarrow> 'a snapshot_doc list settled \<Rightarrow> ('d, 'n, 'a) dashboard" where
  "fetchData db st0 doubtsResult notesResult answersResult =
     (let st1 = st0\<lparr>loading := True\<rparr> in
      if \<not> db then st1\<lparr>loading := False\<rparr>
      else
        let st2 = st1\<lparr>doubtsError := None, notesError := None, answersError := None\<rparr>;
            st3 = (case doubtsResult of
                     Fulfilled v \<Rightarrow> st2\<lparr>myDoubts := map as_record v\<rparr>
                   | Rejected reason \<Rightarrow> st2\<lparr>doubtsError := Some (message reason)\<rparr>);
            st4 = (case notesResult of
                     Fulfilled v \<Rightarrow> st3\<lparr>myNotes := map as_record v\<rparr>
                   | Rejected reason \<Rightarrow> st3\<lparr>notesError := Some (message reason)\<rparr>);
            st5 = (case answersResult of
                     Fulfilled v \<Rightarrow> st4\<lparr>myAnswers := map as_record v\<rparr>
                   | Rejected reason \<Rightarrow> st4\<lparr>answersError := Some (message reason)\<rparr>)
        in st5\<lparr>loading := False\<rparr>)"

text \<open>What \<^verbatim>\<open>TabContentTemplate\<close> puts into a tab.\<close>

datatype 'r tab_content = IndexErrorMessage | Children "'r list" | EmptyMessage

definition TabContentTemplate :: "'r list \<Rightarrow> jsstring option \<Rightarrow> 'r tab_content" where
  "TabContentTemplate rs err =
     (if truthy err then IndexErrorMessage
      else if length rs > 0 then Children rs else EmptyMessage)"

text \<open>
  The outcome the dashboard holds for one source after the fetch (its list and its error
  state), and the outcome the source's own query settled with.
\<close>

datatype 'r outcome = Success "'r list" | Failure jsstring

definition source_outcome :: "'r list \<Rightarrow> jsstring option \<Rightarrow> 'r outcome" where
  "source_outcome rs err = (case err of None \<Rightarrow> Success rs | Some m \<Rightarrow> Failure m)"

definition query_outcome :: "'a snapshot_doc list settled \<Rightarrow> 'a with_id outcome" where
  "query_outcome r = (case r of Fulfilled v \<Rightarrow> Success (map as_record v)
                              | Rejected reason \<Rightarrow> Failure (message reason))"

definition is_rejected :: "'a settled \<Rightarrow> bool" where
  "is_rejected r = (case r of Fulfilled _ \<Rightarrow> False | Rejected _ \<Rightarrow> True)"

definition is_failure :: "'r outcome \<Rightarrow> bool" where
  "is_failure out = (case out of Success _ \<Rightarrow> False | Failure _ \<Rightarrow> True)"

definition count_true :: "bool list \<Rightarrow> nat" where
  "count_true bs = length (filter (\<lambda>b. b) bs)"

section \<open>The share-resource form\<close>

subsection \<open>The two URL patterns\<close>

text \<open>
  The regular expressions of the refinement use literals, alternation, concatenation,
  \<^verbatim>\<open>?\<close> and a final \<^verbatim>\<open>.+\<close>. \<open>rmatch re s\<close> lists what can be left of \<open>s\<close> after
  a match of \<open>re\<close> at its start, and \<open>test\<close> is \<^verbatim>\<open>/^re$/.test(s)\<close>: some match
  leaves nothing.
\<close>

datatype regex = Lit jsstring | Alt regex regex | Seq regex regex | Opt regex | AnyPlus

fun strip_prefix :: "jsstring \<Rightarrow> jsstring \<Rightarrow> jsstring option" where
  "strip_prefix [] s = Some s"
| "strip_prefix (p # ps) [] = None"
| "strip_prefix (p # ps) (c # cs) = (if p = c then strip_prefix ps cs else None)"

definition line_terminator :: "nat \<Rightarrow> bool" where
  "line_terminator c = (c = 0x0A \<or> c = 0x0D \<or> c = 0x2028 \<or> c = 0x2029)"

fun rmatch :: "regex \<Rightarrow> jsstring \<Rightarrow> jsstring list" where
  "rmatch (Lit p) s = (case strip_prefix p s of None \<Rightarrow> [] | Some r \<Rightarrow> [r])"
| "rmatch (Alt a b) s = rmatch a s @ rmatch b s"
| "rmatch (Seq a b) s = concat (map (rmatch b) (rmatch a s))"
| "rmatch (Opt a) s = rmatch a s @ [s]"
| "rmatch AnyPlus s =
     map (\<lambda>n. drop n s) (rev [1..<Suc (length (takeWhile (\<lambda>c. \<not> line_terminator c) s))])"

definition test :: "regex \<Rightarrow> jsstring \<Rightarrow> bool" where
  "test re s = ([] \<in> set (rmatch re s))"

definition scheme_re :: regex where
  "scheme_re = Opt (Seq (Lit (js ''http'')) (Seq (Opt (Lit (js ''s''))) (Lit (js ''://''))))"

definition path_re :: regex where
  "path_re = Seq (Lit (js ''/'')) AnyPlus"

definition youtube_hosts :: regex where
  "youtube_hosts =
     Alt (Lit (js ''youtube.com''))
    (Alt (Seq (Lit (js ''youtu'')) (Seq (Opt (Lit (js ''.''))) (Lit (js ''be''))))
    (Alt (Lit (js ''m.youtube.com''))
    (Alt (Lit (js ''y2u.be''))
    (Alt (Lit (js ''yt.be''))
    (Alt (Lit (js ''music.youtube.com''))
    (Alt (Lit (js ''gaming.youtube.com''))
    (Alt (Lit (js ''studio.youtube.com''))
    (Alt (Lit (js ''shorts.youtube.com''))
         (Lit (js ''youtube-nocookie.com''))))))))))"

definition youtube_re :: regex where
  "youtube_re = Seq scheme_re (Seq (Opt (Lit (js ''www.''))) (Seq youtube_hosts path_re))"

definition drive_re :: regex where
  "drive_re = Seq scheme_re (Seq (Lit (js ''drive.google.com'')) path_re)"

subsection \<open>The schema\<close>

text \<open>
  \<^verbatim>\<open>z.string().url()\<close> accepts the strings that parse as an absolute URL. The URL parser
  strips leading and trailing C0 controls and spaces, drops tabs and newlines, and looks
  for a scheme first: a letter, then letters, digits, \<^verbatim>\<open>+\<close>, \<^verbatim>\<open>-\<close> or \<^verbatim>\<open>.\<close>, then a
  colon. With no base URL it fails where it finds none. \<open>rest\<close> stands for the states of
  the parser after the scheme, which belong to the library.
\<close>

definition c0_or_space :: "nat \<Rightarrow> bool" where
  "c0_or_space c = (c \<le> 0x20)"

definition ascii_alpha :: "nat \<Rightarrow> bool" where
  "ascii_alpha c = ((0x41 \<le> c \<and> c \<le> 0x5A) \<or> (0x61 \<le> c \<and> c \<le> 0x7A))"

definition scheme_char :: "nat \<Rightarrow> bool" where
  "scheme_char c = (ascii_alpha c \<or> (0x30 \<le> c \<and> c \<le> 0x39) \<or> c = 0x2B \<or> c = 0x2D \<or> c = 0x2E)"

definition has_scheme :: "jsstring \<Rightarrow> bool" where
  "has_scheme s =
     (let stripped = rev (dropWhile c0_or_space (rev (dropWhile c0_or_space s)));
          input = filter (\<lambda>c. c \<noteq> 0x09 \<and> c \<noteq> 0x0A \<and> c \<noteq> 0x0D) stripped
      in case input of
           [] \<Rightarrow> False
         | c # cs \<Rightarrow> ascii_alpha c \<and>
             (case dropWhile scheme_char cs of [] \<Rightarrow> False | d # _ \<Rightarrow> d = 0x3A))"

definition zod_url :: "(jsstring \<Rightarrow> bool) \<Rightarrow> jsstring \<Rightarrow> bool" where
  "zod_url rest s = (has_scheme s \<and> rest s)"

text \<open>
  The form's values, typed as \<^verbatim>\<open>z.infer<typeof formSchema>\<close> types them: the resource
  type is one of the enum's two members, the description may be absent.
\<close>

datatype resource_type = youtube | drive

record share_values =
  topic :: jsstring
  sv_subject :: jsstring
  sv_description :: "jsstring option"
  resourceType :: resource_type
  url :: jsstring

text \<open>A validation issue: the field it is attached to and its message.\<close>

type_synonym issue = "string \<times> jsstring"

text \<open>
  The function given to \<^verbatim>\<open>.refine\<close>. Its last \<^verbatim>\<open>return true\<close> is for a resource type
  that is neither member of the enum, which the type leaves out.
\<close>

definition refinement :: "share_values \<Rightarrow> bool" where
  "refinement v =
     (case resourceType v of
        youtube \<Rightarrow> test youtube_re (url v)
      | drive \<Rightarrow> test drive_re (url v))"

text \<open>
  \<^verbatim>\<open>formSchema\<close> of the share-resource page: the issues of the object's fields in the
  order of the schema, then the issue of the refinement, which runs on the whole object.
\<close>

definition formSchema_share :: "(jsstring \<Rightarrow> bool) \<Rightarrow> share_values \<Rightarrow> issue list" where
  "formSchema_share rest v =
     (if length (topic v) < 5 then [(''topic'', js ''Topic must be at least 5 characters.'')] else [])
     @ (if length (sv_subject v) < 1 then [(''subject'', js ''Please select a subject.'')] else [])
     @ (if \<not> zod_url rest (url v) then [(''url'', js ''Please enter a valid URL.'')] else [])
     @ (if \<not> refinement v
        then [(''url'', js ''Please enter a valid URL for the selected resource type.'')] else [])"

definition accepts :: "('v \<Rightarrow> issue list) \<Rightarrow> 'v \<Rightarrow> bool" where
  "accepts schema v = (schema v = [])"

section \<open>The ask-doubt form\<close>

record doubt_values =
  dv_subject :: jsstring
  dv_description :: jsstring

definition formSchema_doubt :: "doubt_values \<Rightarrow> issue list" where
  "formSchema_doubt v =
     (if length (dv_subject v) < 1 then [(''subject'', js ''Please select a subject.'')] else [])
     @ (if length (dv_description v) < 10
        then [(''description'', js ''Description must be at least 10 characters.'')] else [])"

section \<open>Form-gated mutations\<close>

text \<open>
  A page with a form: the form's field values and field-level errors, the page's own
  \<^verbatim>\<open>error\<close> and \<^verbatim>\<open>isSubmitting\<close> states, and its effects.
\<close>

record 'v form_page = effects +
  form_values :: "'v"
  form_errors :: "issue list"
  error_state :: "jsstring option"
  isSubmitting :: bool

text \<open>
  Modelled from the spec: \<^verbatim>\<open>form.handleSubmit\<close> and the \<^verbatim>\<open>zodResolver\<close> it runs are
  not among the sources. As the spec has it, the input is validated before any write is
  attempted: when the schema reports issues they become the form's field-level errors and
  the submit handler is not called; when it reports none, the handler is called once
  with the values.
\<close>

definition form_handleSubmit ::
  "('v \<Rightarrow> issue list) \<Rightarrow> ('v \<Rightarrow> 'v form_page \<Rightarrow> 'v form_page) \<Rightarrow> 'v form_page \<Rightarrow> 'v form_page" where
  "form_handleSubmit resolver onValid st =
     (let errors = resolver (form_values st) in
      if errors \<noteq> [] then st\<lparr>form_errors := errors\<rparr>
      else onValid (form_values st) (st\<lparr>form_errors := []\<rparr>))"

text \<open>\<^verbatim>\<open>form.reset()\<close>: the fields go back to \<^verbatim>\<open>defaultValues\<close> and the errors are dropped.\<close>

definition form_reset :: "'v \<Rightarrow> 'v form_page \<Rightarrow> 'v form_page" where
  "form_reset defaultValues st = st\<lparr>form_values := defaultValues, form_errors := []\<rparr>"

definition configuration_error :: toast where
  "configuration_error =
     \<lparr>t_destructive = True, t_title = js ''Configuration Error'',
      t_description = Some (js ''Firebase is not configured correctly. Please check your setup.'')\<rparr>"

subsection \<open>Posting a doubt\<close>

definition defaultValues_doubt :: doubt_values where
  "defaultValues_doubt = \<lparr>dv_subject = [], dv_description = []\<rparr>"

text \<open>
  \<^verbatim>\<open>onSubmit\<close> of \<^verbatim>\<open>AskDoubtPage\<close>. \<open>usr\<close> is the signed-in user or null, \<open>db\<close> says
  whether the store was initialised, \<open>res\<close> is what the awaited \<^verbatim>\<open>addDoc\<close> settles
  with (the id of the new document, or an error).
\<close>

definition onSubmit_doubt ::
  "user option \<Rightarrow> bool \<Rightarrow> jsstring settled \<Rightarrow> doubt_values \<Rightarrow> doubt_values form_page
     \<Rightarrow> doubt_values form_page" where
  "onSubmit_doubt usr db res v st =
     (case usr of
        None \<Rightarrow> st\<lparr>toasts := toasts st @ [configuration_error]\<rparr>
      | Some u \<Rightarrow>
          if \<not> db then st\<lparr>toasts := toasts st @ [configuration_error]\<rparr>
          else
            let st1 = st\<lparr>error_state := None, isSubmitting := True\<rparr>;
                st2 = st1\<lparr>store_calls := store_calls st1 @
                        [AddDoc ''doubts''
                           [(''userId'', Str (uid u)),
                            (''userName'', nullable (displayName u)),
                            (''subject'', Str (dv_subject v)),
                            (''description'', Str (dv_description v)),
                            (''createdAt'', ServerTimestamp),
                            (''isResolved'', Bool False)]]\<rparr>;
                st3 = (case res of
                         Fulfilled _ \<Rightarrow>
                           (form_reset defaultValues_doubt
                              (st2\<lparr>toasts := toasts st2 @
                                 [\<lparr>t_destructive = False, t_title = js ''Success!'',
                                   t_description = Some (js ''Your doubt has been posted successfully.'')\<rparr>]\<rparr>))
                           \<lparr>pushed := pushed st2 @ [''/doubts'']\<rparr>
                       | Rejected e \<Rightarrow>
                           st2\<lparr>error_state := Some (js
                             ''Post Failed: An unexpected error occurred. Please check the console for details.'')\<rparr>)
            in st3\<lparr>isSubmitting := False\<rparr>)"

definition submit_doubt ::
  "user option \<Rightarrow> bool \<Rightarrow> jsstring settled \<Rightarrow> doubt_values form_page \<Rightarrow> doubt_values form_page" where
  "submit_doubt usr db res st = form_handleSubmit formSchema_doubt (onSubmit_doubt usr db res) st"

subsection \<open>Sharing a resource\<close>

definition defaultValues_share :: share_values where
  "defaultValues_share =
     \<lparr>topic = [], sv_subject = [], sv_description = Some [], resourceType = youtube, url = []\<rparr>"

definition resource_type_name :: "resource_type \<Rightarrow> jsstring" where
  "resource_type_name t = (case t of youtube \<Rightarrow> js ''youtube'' | drive \<Rightarrow> js ''drive'')"

text \<open>\<^verbatim>\<open>onSubmit\<close> of \<^verbatim>\<open>ShareResourcePage\<close>, with the arguments of \<open>onSubmit_doubt\<close>.\<close>

definition onSubmit_share ::
  "user option \<Rightarrow> bool \<Rightarrow> jsstring settled \<Rightarrow> share_values \<Rightarrow> share_values form_page
     \<Rightarrow> share_values form_page" where
  "onSubmit_share usr db res v st =
     (case usr of
        None \<Rightarrow> st\<lparr>toasts := toasts st @ [configuration_error]\<rparr>
      | Some u \<Rightarrow>
          if \<not> db then st\<lparr>toasts := toasts st @ [configuration_error]\<rparr>
          else
            let st1 = st\<lparr>error_state := None, isSubmitting := True\<rparr>;
                st2 = st1\<lparr>store_calls := store_calls st1 @
                        [AddDoc ''notes''
                           [(''userId'', Str (uid u)),
                            (''userName'', nullable (displayName u)),
                            (''topic'', Str (topic v)),
                            (''subject'', Str (sv_subject v)),
                            (''description'', optional (sv_description v)),
                            (''resourceUrl'', Str (url v)),
                            (''resourceType'', Str (resource_type_name (resourceType v))),
                            (''createdAt'', ServerTimestamp)]]\<rparr>;
                st3 = (case res of
                         Fulfilled _ \<Rightarrow>
                           (form_reset defaultValues_share
                              (st2\<lparr>toasts := toasts st2 @
                                 [\<lparr>t_destructive = False, t_title = js ''Success!'',
                                   t_description = Some (js ''Your resource has been shared successfully.'')\<rparr>]\<rparr>))
                           \<lparr>pushed := pushed st2 @ [''/notes'']\<rparr>
                       | Rejected e \<Rightarrow>
                           st2\<lparr>error_state := Some (js
                             ''An unexpected error occurred while saving your resource. Please try again.'')\<rparr>)
            in st3\<lparr>isSubmitting := False\<rparr>)"

definition submit_share ::
  "(jsstring \<Rightarrow> bool) \<Rightarrow> user option \<Rightarrow> bool \<Rightarrow> jsstring settled \<Rightarrow> share_values form_page
     \<Rightarrow> share_values form_page" where
  "submit_share rest usr db res st =
     form_handleSubmit (formSchema_share rest) (onSubmit_share usr db res) st"

subsection \<open>Submitting an answer\<close>

text \<open>The white space and line terminators that \<^verbatim>\<open>String.prototype.trim\<close> removes.\<close>

definition js_whitespace :: "nat \<Rightarrow> bool" where
  "js_whitespace c =
     (c = 0x09 \<or> c = 0x0A \<or> c = 0x0B \<or> c = 0x0C \<or> c = 0x0D \<or> c = 0x20 \<or> c = 0xA0
      \<or> c = 0x1680 \<or> (0x2000 \<le> c \<and> c \<le> 0x200A) \<or> c = 0x2028 \<or> c = 0x2029
      \<or> c = 0x202F \<or> c = 0x205F \<or> c = 0x3000 \<or> c = 0xFEFF)"

definition trim :: "jsstring \<Rightarrow> jsstring" where
  "trim s = rev (dropWhile js_whitespace (rev (dropWhile js_whitespace s)))"

text \<open>The \<^verbatim>\<open>Doubt\<close> of the doubts feed, without its id.\<close>

record doubt =
  userId :: jsstring
  userName :: jsstring
  subject :: jsstring
  description :: jsstring
  createdAt :: "nat option"
  isResolved :: bool

record dialog = effects +
  answer :: jsstring
  dlg_isSubmitting :: bool

text \<open>
  \<^verbatim>\<open>handleSubmit\<close> of \<^verbatim>\<open>DoubtDetailsDialog\<close> for the doubt \<open>d\<close>; \<open>res\<close> is what the
  awaited \<^verbatim>\<open>addDoc\<close> settles with.
\<close>

definition handleSubmit_answer ::
  "user option \<Rightarrow> bool \<Rightarrow> jsstring settled \<Rightarrow> doubt with_id \<Rightarrow> dialog \<Rightarrow> dialog" where
  "handleSubmit_answer usr db res d st =
     (case usr of
        None \<Rightarrow>
          st\<lparr>toasts := toasts st @
               [\<lparr>t_destructive = True, t_title = js ''Login Required'', t_description = None\<rparr>],
             pushed := pushed st @ [''/login'']\<rparr>
      | Some u \<Rightarrow>
          if \<not> db then
            st\<lparr>toasts := toasts st @
                 [\<lparr>t_destructive = True, t_title = js ''Error'',
                   t_description = Some (js ''Database not configured.'')\<rparr>]\<rparr>
          else if trim (answer st) = [] then
            st\<lparr>toasts := toasts st @
                 [\<lparr>t_destructive = True, t_title = js ''Empty Answer'',
                   t_description = Some (js ''Please provide text for your answer.'')\<rparr>]\<rparr>
          else
            let st1 = st\<lparr>dlg_isSubmitting := True\<rparr>;
                st2 = st1\<lparr>store_calls := store_calls st1 @
                        [AddDoc ''answers''
                           [(''doubtId'', Str (rec_id d)),
                            (''userId'', Str (uid u)),
                            (''userName'', nullable (displayName u)),
                            (''text'', Str (answer st)),
                            (''createdAt'', ServerTimestamp)]]\<rparr>;
                st3 = (case res of
                         Fulfilled _ \<Rightarrow>
                           st2\<lparr>toasts := toasts st2 @
                                 [\<lparr>t_destructive = False, t_title = js ''Answer submitted!'',
                                   t_description = None\<rparr>],
                               answer := []\<rparr>
                       | Rejected e \<Rightarrow>
                           st2\<lparr>toasts := toasts st2 @
                                 [\<lparr>t_destructive = True, t_title = js ''Error'',
                                   t_description = Some (js ''Could not submit your answer.'')\<rparr>]\<rparr>)
            in st3\<lparr>dlg_isSubmitting := False\<rparr>)"

section \<open>Live query subscriptions\<close>

text \<open>
  What the callbacks a component gives to \<^verbatim>\<open>onSnapshot\<close> are called with: a snapshot
  of the whole result set (the success callback), or an error (the error callback). The
  events of a mounted component are the calls of its two callbacks, in order.
\<close>

datatype 'a sub_event = Next "'a snapshot_doc list" | Err firebase_error

definition is_error :: "'a sub_event \<Rightarrow> bool" where
  "is_error ev = (case ev of Next _ \<Rightarrow> False | Err _ \<Rightarrow> True)"

subsection \<open>The answers of a doubt\<close>

record 'a answer_list =
  answers :: "'a with_id list"
  al_loading :: bool
  fetchError :: "jsstring option"

definition AnswerList_init :: "'a answer_list" where
  "AnswerList_init = \<lparr>answers = [], al_loading = True, fetchError = None\<rparr>"

definition index_required :: jsstring where
  "index_required = js (''This feature requires a database index. Please open your browser's developer console (F12). ''
     @ ''You will find a link in the red Firebase error message. Click that link to create the index ''
     @ ''in the Firebase Console, then wait a few minutes and refresh this page.'')"

definition unexpected_error :: "jsstring \<Rightarrow> jsstring" where
  "unexpected_error m = js ''An unexpected database error occurred: '' @ m"

text \<open>The effect of \<^verbatim>\<open>AnswerList\<close> where the store was not initialised.\<close>

definition AnswerList_not_connected :: "'a answer_list \<Rightarrow> 'a answer_list" where
  "AnswerList_not_connected st =
     st\<lparr>al_loading := False,
        fetchError := Some (js
          ''The application is not connected to the database. Please check your Firebase configuration.'')\<rparr>"

text \<open>The two callbacks \<^verbatim>\<open>AnswerList\<close> gives to \<^verbatim>\<open>onSnapshot\<close>.\<close>

fun AnswerList_on :: "'a answer_list \<Rightarrow> 'a sub_event \<Rightarrow> 'a answer_list" where
  "AnswerList_on st (Next querySnapshot) =
     st\<lparr>answers := map as_record querySnapshot, fetchError := None, al_loading := False\<rparr>"
| "AnswerList_on st (Err e) =
     (if code e = js ''failed-precondition''
      then st\<lparr>fetchError := Some index_required\<rparr>
      else st\<lparr>fetchError := Some (unexpected_error (message e))\<rparr>)
     \<lparr>al_loading := False\<rparr>"

datatype 'a answers_view =
    AnswersSkeleton | AnswersAlert jsstring | NoAnswers | AnswerCards "'a with_id list"

definition AnswerList_view :: "'a answer_list \<Rightarrow> 'a answers_view" where
  "AnswerList_view st =
     (if al_loading st then AnswersSkeleton
      else case (if truthy (fetchError st) then fetchError st else None) of
             Some m \<Rightarrow> AnswersAlert m
           | None \<Rightarrow>
               (if length (answers st) = 0 then NoAnswers else AnswerCards (answers st)))"

subsection \<open>The resource library\<close>

record 'a notes_page =
  resources :: "'a with_id list"
  np_loading :: bool
  np_error :: "jsstring option"

definition NotesPage_init :: "'a notes_page" where
  "NotesPage_init = \<lparr>resources = [], np_loading = True, np_error = None\<rparr>"

fun NotesPage_on :: "'a notes_page \<Rightarrow> 'a sub_event \<Rightarrow> 'a notes_page" where
  "NotesPage_on st (Next querySnapshot) =
     st\<lparr>resources := map as_record querySnapshot, np_loading := False\<rparr>"
| "NotesPage_on st (Err e) =
     st\<lparr>np_error := Some (js ''Failed to fetch resources from the database.''), np_loading := False\<rparr>"

text \<open>The effect of \<^verbatim>\<open>NotesPage\<close> where the store was not initialised.\<close>

definition NotesPage_not_connected :: "'a notes_page \<Rightarrow> 'a notes_page" where
  "NotesPage_not_connected st =
     st\<lparr>np_error := Some (js ''Database not available. Please check Firebase configuration.''),
        np_loading := False\<rparr>"

text \<open>
  What \<^verbatim>\<open>NotesPage\<close> renders, each part under its own condition: the skeleton while
  loading, the alert with the error, the message of an empty library, the cards.
\<close>

record 'a notes_view =
  nv_skeleton :: bool
  nv_alert :: "jsstring option"
  nv_empty :: bool
  nv_cards :: "'a with_id list"

definition NotesPage_view :: "'a notes_page \<Rightarrow> 'a notes_view" where
  "NotesPage_view st =
     \<lparr>nv_skeleton = np_loading st,
      nv_alert = (if truthy (np_error st) then np_error st else None),
      nv_empty = (\<not> np_loading st \<and> \<not> truthy (np_error st) \<and> length (resources st) = 0),
      nv_cards = (if \<not> np_loading st \<and> \<not> truthy (np_error st) \<and> length (resources st) > 0
                  then resources st else [])\<rparr>"

subsection \<open>The doubts feed\<close>

record feed = effects +
  doubts :: "doubt with_id list"
  df_loading :: bool

definition DoubtsFeed_init :: feed where
  "DoubtsFeed_init = \<lparr>toasts = [], pushed = [], store_calls = [], doubts = [], df_loading = True\<rparr>"

fun DoubtsFeed_on :: "feed \<Rightarrow> doubt sub_event \<Rightarrow> feed" where
  "DoubtsFeed_on st (Next querySnapshot) =
     st\<lparr>doubts := map as_record querySnapshot, df_loading := False\<rparr>"
| "DoubtsFeed_on st (Err e) =
     st\<lparr>toasts := toasts st @
          [\<lparr>t_destructive = True, t_title = js ''Error'',
            t_description = Some (js ''Could not fetch doubts.'')\<rparr>],
        df_loading := False\<rparr>"

text \<open>
  \<^verbatim>\<open>handleMarkAsResolved\<close>; \<open>res\<close> is what the awaited \<^verbatim>\<open>updateDoc\<close> settles with. The
  call stands in no \<^verbatim>\<open>try\<close>: a rejection ends the handler.
\<close>

definition handleMarkAsResolved :: "bool \<Rightarrow> unit settled \<Rightarrow> jsstring \<Rightarrow> feed \<Rightarrow> feed" where
  "handleMarkAsResolved db res doubtId st =
     (if \<not> db then
        st\<lparr>toasts := toasts st @
             [\<lparr>t_destructive = True, t_title = js ''Error'',
               t_description = Some (js ''Database not configured.'')\<rparr>]\<rparr>
      else
        let st1 = st\<lparr>store_calls := store_calls st @
                     [UpdateDoc ''doubts'' doubtId [(''isResolved'', Bool True)]]\<rparr>
        in case res of
             Fulfilled _ \<Rightarrow>
               st1\<lparr>toasts := toasts st1 @
                     [\<lparr>t_destructive = False, t_title = js ''Resolved!'',
                       t_description = Some (js ''You've marked this doubt as resolved.'')\<rparr>]\<rparr>
           | Rejected e \<Rightarrow> st1)"

text \<open>What the feed renders: per doubt a card with its badge and, for some, the Resolve button.\<close>

record doubt_card =
  card_doubt :: "doubt with_id"
  resolved_badge :: bool
  resolve_button :: bool

datatype feed_view = DoubtsLoadingSkeleton | EmptyFeed | Grid "doubt_card list"

text \<open>\<^verbatim>\<open>user?.uid === doubt.userId && !doubt.isResolved\<close>, for the user of the auth context.\<close>

definition shows_resolve :: "user option \<Rightarrow> doubt with_id \<Rightarrow> bool" where
  "shows_resolve usr d =
     ((case usr of None \<Rightarrow> False | Some u \<Rightarrow> uid u = userId (rec_data d))
      \<and> \<not> isResolved (rec_data d))"

definition render_card :: "user option \<Rightarrow> doubt with_id \<Rightarrow> doubt_card" where
  "render_card usr d =
     \<lparr>card_doubt = d, resolved_badge = isResolved (rec_data d), resolve_button = shows_resolve usr d\<rparr>"

definition DoubtsFeed_view :: "user option \<Rightarrow> feed \<Rightarrow> feed_view" where
  "DoubtsFeed_view usr st =
     (if df_loading st then DoubtsLoadingSkeleton
      else if length (doubts st) = 0 then EmptyFeed
      else Grid (map (render_card usr) (doubts st)))"

section \<open>Sign-up\<close>

record signup_values =
  su_name :: jsstring
  su_email :: jsstring
  su_password :: jsstring

datatype auth_call =
    CreateUserWithEmailAndPassword jsstring jsstring
  | UpdateProfile jsstring jsstring

record signup_page = effects +
  su_error :: "jsstring option"
  su_loading :: bool
  auth_calls :: "auth_call list"

definition creation_failed :: "firebase_error \<Rightarrow> jsstring" where
  "creation_failed e =
     js ''Account Creation Failed: '' @
     (if code e = js ''auth/email-already-in-use''
      then js ''This email is already registered. Please try logging in instead.''
      else if code e = js ''auth/weak-password''
      then js ''The password is too weak. Please use at least 6 characters.''
      else js ''An unknown error occurred during account creation.'')"

definition signup_incomplete :: jsstring where
  "signup_incomplete = js (''Signup Incomplete. Your account was created, but we could not save your profile. ''
     @ ''This is almost always a Firestore Security Rules issue. ''
     @ ''Please double-check your rules in the Firebase Console.'')"

text \<open>
  \<^verbatim>\<open>onSubmit\<close> of \<^verbatim>\<open>SignupPage\<close>. \<open>auth\<close> and \<open>db\<close> say whether the two services were
  initialised; \<open>created\<close>, \<open>updated\<close> and \<open>saved\<close> are what the awaited
  \<^verbatim>\<open>createUserWithEmailAndPassword\<close>, \<^verbatim>\<open>updateProfile\<close> and \<^verbatim>\<open>setDoc\<close> settle with.
  The first two calls stand in one \<^verbatim>\<open>try\<close>, the third in a second one.
\<close>

definition onSubmit_signup ::
  "bool \<Rightarrow> bool \<Rightarrow> user settled \<Rightarrow> unit settled \<Rightarrow> unit settled \<Rightarrow> signup_values
     \<Rightarrow> signup_page \<Rightarrow> signup_page" where
  "onSubmit_signup auth db created updated saved v st =
     (let st1 = st\<lparr>su_error := None\<rparr> in
      if \<not> (auth \<and> db) then
        st1\<lparr>toasts := toasts st1 @
              [\<lparr>t_destructive = True, t_title = js ''Configuration Error'',
                t_description = Some (js ''Firebase is not configured. Please check the setup.'')\<rparr>]\<rparr>
      else
        let st2 = st1\<lparr>su_loading := True,
                      auth_calls := auth_calls st1 @
                        [CreateUserWithEmailAndPassword (su_email v) (su_password v)]\<rparr>
        in (case created of
              Rejected e \<Rightarrow> st2\<lparr>su_error := Some (creation_failed e), su_loading := False\<rparr>
            | Fulfilled u \<Rightarrow>
                (let st3 = st2\<lparr>auth_calls := auth_calls st2 @ [UpdateProfile (uid u) (su_name v)]\<rparr>
                 in (case updated of
                       Rejected e \<Rightarrow> st3\<lparr>su_error := Some (creation_failed e), su_loading := False\<rparr>
                     | Fulfilled _ \<Rightarrow>
                         (if \<not> db then st3\<lparr>su_error := Some signup_incomplete\<rparr>
                          else
                            (let st4 = st3\<lparr>store_calls := store_calls st3 @
                                          [SetDoc ''users'' (uid u)
                                             [(''uid'', Str (uid u)),
                                              (''name'', Str (su_name v)),
                                              (''email'', Str (su_email v)),
                                              (''upvoteScore'', Num 0)]]\<rparr>
                             in (case saved of
                                   Fulfilled _ \<Rightarrow>
                                     st4\<lparr>toasts := toasts st4 @
                                           [\<lparr>t_destructive = False, t_title = js ''Account Created!'',
                                             t_description = Some (js
                                               ''Welcome to StudySync! Redirecting you to the dashboard...'')\<rparr>],
                                         pushed := pushed st4 @ [''/dashboard'']\<rparr>
                                 | Rejected e \<Rightarrow> st4\<lparr>su_error := Some signup_incomplete\<rparr>)))
                         \<lparr>su_loading := False\<rparr>))))"

section \<open>The document store\<close>

text \<open>
  The store holds, per collection and document id, the fields of a document.
  \<^verbatim>\<open>addDoc\<close> creates a document under an id the store generates, one that is not in use
  (\<open>new\<close>); \<^verbatim>\<open>updateDoc\<close> merges the given fields into an existing document and fails
  where there is none; \<^verbatim>\<open>setDoc\<close> writes the document whole. \<open>None\<close> is a call the
  store does not carry out.
\<close>

type_synonym document = "string \<rightharpoonup> fsvalue"

type_synonym store = "string \<times> jsstring \<rightharpoonup> document"

fun apply_call :: "jsstring \<Rightarrow> store \<Rightarrow> store_call \<Rightarrow> store option" where
  "apply_call new s (AddDoc c fs) =
     (if s (c, new) \<noteq> None then None else Some (s((c, new) \<mapsto> map_of fs)))"
| "apply_call new s (UpdateDoc c i fs) =
     (case s (c, i) of None \<Rightarrow> None | Some d \<Rightarrow> Some (s((c, i) \<mapsto> d ++ map_of fs)))"
| "apply_call new s (SetDoc c i fs) = Some (s((c, i) \<mapsto> map_of fs))"

text \<open>
  A run of calls, each with the id the store has ready for it. A call that the store does
  not carry out leaves the store as it is, and the run goes on.
\<close>

fun apply_calls :: "store \<Rightarrow> (jsstring \<times> store_call) list \<Rightarrow> store" where
  "apply_calls s [] = s"
| "apply_calls s ((new, c) # cs) =
     (case apply_call new s c of None \<Rightarrow> apply_calls s cs | Some s' \<Rightarrow> apply_calls s' cs)"

definition resolved :: "store \<Rightarrow> jsstring \<Rightarrow> bool" where
  "resolved s i =
     (case s (''doubts'', i) of
        None \<Rightarrow> False
      | Some d \<Rightarrow> d ''isResolved'' = Some (Bool True))"

text \<open>
  The calls this codebase issues to the store: what one of its five writing handlers
  appends to the log, from any state, for any user, input and answer of the services.
\<close>

inductive issued :: "store_call \<Rightarrow> bool" where
  post_doubt: "c \<in> set (drop (length (store_calls st)) (store_calls (onSubmit_doubt usr db res v st)))
     \<Longrightarrow> issued c"
| share_resource: "c \<in> set (drop (length (store_calls st')) (store_calls (onSubmit_share usr db res v' st')))
     \<Longrightarrow> issued c"
| submit_answer: "c \<in> set (drop (length (store_calls dl)) (store_calls (handleSubmit_answer usr db res d dl)))
     \<Longrightarrow> issued c"
| mark_resolved: "c \<in> set (drop (length (store_calls fd)) (store_calls (handleMarkAsResolved db ures i fd)))
     \<Longrightarrow> issued c"
| sign_up: "c \<in> set (drop (length (store_calls sp)) (store_calls (onSubmit_signup auth db created updated saved sv sp)))
     \<Longrightarrow> issued c"

section \<open>Auxiliary notions and example inputs\<close>

text \<open>The message \<^verbatim>\<open>AnswerList\<close> holds after its error callback was called with \<open>e\<close>.\<close>

definition AnswerList_message :: "firebase_error \<Rightarrow> jsstring" where
  "AnswerList_message e =
     (if code e = js ''failed-precondition'' then index_required else unexpected_error (message e))"

text \<open>The first character of a host of the YouTube pattern, \<^verbatim>\<open>www.\<close> included.\<close>

definition youtube_first :: "nat \<Rightarrow> bool" where
  "youtube_first c = (c \<in> set (js ''wymgs''))"

definition alice :: user where
  "alice = \<lparr>uid = js ''U1'', displayName = Some (js ''Alice'')\<rparr>"

definition index_missing :: firebase_error where
  "index_missing = \<lparr>code = js ''failed-precondition'', message = js ''The query requires an index.''\<rparr>"

definition unavailable :: firebase_error where
  "unavailable = \<lparr>code = js ''unavailable'', message = js ''The service is currently unavailable.''\<rparr>"

definition network_failed :: firebase_error where
  "network_failed =
     \<lparr>code = js ''auth/network-request-failed'', message = js ''A network error has occurred.''\<rparr>"

definition dashboard_example :: "(jsstring, jsstring, jsstring) dashboard" where
  "dashboard_example =
     \<lparr>myDoubts = [], myNotes = [], myAnswers = [], doubtsError = None, notesError = None,
      answersError = None, loading = True\<rparr>"

definition share_example :: "jsstring \<Rightarrow> resource_type \<Rightarrow> share_values" where
  "share_example u t =
     \<lparr>topic = js ''Quick Sort Algorithm Explained'', sv_subject = js ''DSA'',
      sv_description = Some [], resourceType = t, url = u\<rparr>"

definition short_doubt :: doubt_values where
  "short_doubt = \<lparr>dv_subject = js ''DSA'', dv_description = js ''Why?''\<rparr>"

definition doubt_example :: doubt_values where
  "doubt_example = \<lparr>dv_subject = js ''DSA'', dv_description = js ''What is a red-black tree?''\<rparr>"

definition page_with :: "'v \<Rightarrow> 'v form_page" where
  "page_with v =
     \<lparr>toasts = [], pushed = [], store_calls = [], form_values = v, form_errors = [],
      error_state = None, isSubmitting = False\<rparr>"

definition dialog_with :: "jsstring \<Rightarrow> dialog" where
  "dialog_with t = \<lparr>toasts = [], pushed = [], store_calls = [], answer = t, dlg_isSubmitting = False\<rparr>"

definition doubt_of :: "jsstring \<Rightarrow> jsstring \<Rightarrow> bool \<Rightarrow> doubt with_id" where
  "doubt_of i author r =
     \<lparr>rec_id = i,
      rec_data = \<lparr>userId = author, userName = js ''Someone'', subject = js ''DSA'',
                  description = js ''What is a red-black tree?'', createdAt = Some 1,
                  isResolved = r\<rparr>\<rparr>"

definition feed_example :: feed where
  "feed_example =
     \<lparr>toasts = [], pushed = [], store_calls = [],
      doubts = [doubt_of (js ''D1'') (js ''U1'') False, doubt_of (js ''D2'') (js ''U2'') False,
                doubt_of (js ''D3'') (js ''U1'') True],
      df_loading = False\<rparr>"

definition signup_example :: signup_values where
  "signup_example =
     \<lparr>su_name = js ''Alice'', su_email = js ''alice@example.com'', su_password = js ''secret1''\<rparr>"

definition signup_init :: signup_page where
  "signup_init =
     \<lparr>toasts = [], pushed = [], store_calls = [], su_error = None, su_loading = False,
      auth_calls = []\<rparr>"

definition store_example :: store where
  "store_example = [(''doubts'', js ''D1'') \<mapsto> [''isResolved'' \<mapsto> Bool True]]"

definition calls_example :: "(jsstring \<times> store_call) list" where
  "calls_example =
     [(js ''D2'', AddDoc ''doubts''
         [(''userId'', Str (js ''U1'')), (''userName'', Str (js ''Alice'')),
          (''subject'', Str (js ''DSA'')), (''description'', Str (js ''What is a red-black tree?'')),
          (''createdAt'', ServerTimestamp), (''isResolved'', Bool False)]),
      (js ''D3'', UpdateDoc ''doubts'' (js ''D1'') [(''isResolved'', Bool True)])]"

section \<open>Independent degradation of the dashboard\<close>

text \<open>
  Claim C1. With the store initialised, when exactly one of the three one-shot queries
  (my doubts, my notes, my answers) is rejected, the dashboard holds after the fetch, for
  each source, the outcome of that source's own query: the records of each fulfilled
  query, and the error of the rejected one; exactly one of the three outcomes is a
  failure, and the fetch ends with \<open>loading\<close> off.
\<close>

theorem fetchData_independent:
  assumes "db"
    and "count_true [is_rejected rd, is_rejected rn, is_rejected ra] = 1"
  shows "source_outcome (myDoubts (fetchData db st rd rn ra)) (doubtsError (fetchData db st rd rn ra))
           = query_outcome rd
    \<and> source_outcome (myNotes (fetchData db st rd rn ra)) (notesError (fetchData db st rd rn ra))
           = query_outcome rn
    \<and> source_outcome (myAnswers (fetchData db st rd rn ra)) (answersError (fetchData db st rd rn ra))
           = query_outcome ra
    \<and> count_true [is_failure (query_outcome rd), is_failure (query_outcome rn),
                   is_failure (query_outcome ra)] = 1
    \<and> \<not> loading (fetchData db st rd rn ra)"
  using assms
  by (simp add: fetchData_def source_outcome_def query_outcome_def Let_def is_failure_def
      is_rejected_def count_true_def split: settled.splits)

theorem fetchData_independent_witness:
  "myDoubts (fetchData True dashboard_example
      (Fulfilled [\<lparr>doc_id = js ''D1'', doc_data = js ''What is a red-black tree?''\<rparr>])
      (Rejected index_missing) (Fulfilled []))
     = [\<lparr>rec_id = js ''D1'', rec_data = js ''What is a red-black tree?''\<rparr>]
   \<and> doubtsError (fetchData True dashboard_example
      (Fulfilled [\<lparr>doc_id = js ''D1'', doc_data = js ''What is a red-black tree?''\<rparr>])
      (Rejected index_missing) (Fulfilled [])) = None
   \<and> notesError (fetchData True dashboard_example
      (Fulfilled [\<lparr>doc_id = js ''D1'', doc_data = js ''What is a red-black tree?''\<rparr>])
      (Rejected index_missing) (Fulfilled [])) = Some (js ''The query requires an index.'')
   \<and> answersError (fetchData True dashboard_example
      (Fulfilled [\<lparr>doc_id = js ''D1'', doc_data = js ''What is a red-black tree?''\<rparr>])
      (Rejected index_missing) (Fulfilled [])) = None"
  using fetchData_independent [of True
      "Fulfilled [\<lparr>doc_id = js ''D1'', doc_data = js ''What is a red-black tree?''\<rparr>]"
      "Rejected index_missing" "Fulfilled []" dashboard_example]
  by (simp add: source_outcome_def query_outcome_def is_rejected_def count_true_def as_record_def
      index_missing_def split: option.splits)

text \<open>The tab of a source whose query was fulfilled shows that query's records.\<close>

lemma fulfilled_tab_content:
  assumes "db"
  shows "TabContentTemplate (myDoubts (fetchData db st (Fulfilled v) rn ra))
           (doubtsError (fetchData db st (Fulfilled v) rn ra))
         = (if v = [] then EmptyMessage else Children (map as_record v))"
    and "TabContentTemplate (myNotes (fetchData db st rd (Fulfilled v') ra))
           (notesError (fetchData db st rd (Fulfilled v') ra))
         = (if v' = [] then EmptyMessage else Children (map as_record v'))"
    and "TabContentTemplate (myAnswers (fetchData db st rd rn (Fulfilled v'')))
           (answersError (fetchData db st rd rn (Fulfilled v'')))
         = (if v'' = [] then EmptyMessage else Children (map as_record v''))"
  using assms
  by (simp_all add: fetchData_def TabContentTemplate_def Let_def split: settled.splits)

section \<open>The cross-field URL rule\<close>

lemma strip_prefix_iff: "strip_prefix p s = Some r \<longleftrightarrow> s = p @ r"
  by (induction p s rule: strip_prefix.induct) auto

lemma rmatch_Lit_iff: "r \<in> set (rmatch (Lit p) s) \<longleftrightarrow> s = p @ r"
proof (cases "strip_prefix p s")
  case None
  then show ?thesis using strip_prefix_iff [of p s r] by simp
next
  case (Some a)
  then show ?thesis using strip_prefix_iff [of p s a] strip_prefix_iff [of p s r] by auto
qed

lemma rmatch_Seq_iff:
  "r \<in> set (rmatch (Seq a b) s) \<longleftrightarrow> (\<exists>x\<in>set (rmatch a s). r \<in> set (rmatch b x))"
  by simp

lemma rmatch_Alt_iff:
  "r \<in> set (rmatch (Alt a b) s) \<longleftrightarrow> r \<in> set (rmatch a s) \<or> r \<in> set (rmatch b s)"
  by simp

lemma rmatch_Opt_iff: "r \<in> set (rmatch (Opt a) s) \<longleftrightarrow> r = s \<or> r \<in> set (rmatch a s)"
  by auto

lemmas rmatch_iff = rmatch_Lit_iff rmatch_Seq_iff rmatch_Alt_iff rmatch_Opt_iff

lemmas regex_eval = test_def youtube_re_def drive_re_def scheme_re_def youtube_hosts_def
  path_re_def rmatch.simps js_def line_terminator_def

lemmas scheme_eval = has_scheme_def c0_or_space_def ascii_alpha_def scheme_char_def js_def Let_def

declare rmatch.simps [simp del]

text \<open>What a match of either pattern starts with.\<close>

lemma rmatch_Seq_Lit_hd:
  assumes "r \<in> set (rmatch (Seq (Lit (c # p)) b) s)"
  shows "s \<noteq> [] \<and> hd s = c"
  using assms by (auto simp: rmatch_iff)

lemma scheme_cases:
  assumes "x \<in> set (rmatch scheme_re s)"
  shows "s = x \<or> s = js ''http://'' @ x \<or> s = js ''https://'' @ x"
  using assms unfolding scheme_re_def
  by (auto simp: rmatch_iff js_def)

lemma drive_first:
  assumes "y \<in> set (rmatch (Seq (Lit (js ''drive.google.com'')) b) x)"
  shows "x \<noteq> [] \<and> hd x = of_char CHR ''d''"
  using assms rmatch_Seq_Lit_hd by (simp add: js_def)

lemma hosts_first:
  assumes "y \<in> set (rmatch (Seq youtube_hosts b) x)"
  shows "x \<noteq> [] \<and> youtube_first (hd x)"
proof -
  from assms obtain z where "z \<in> set (rmatch youtube_hosts x)"
    unfolding rmatch_Seq_iff by blast
  then show ?thesis
    unfolding youtube_hosts_def
    by (auto simp: rmatch_iff js_def youtube_first_def)
qed

lemma www_hosts_first:
  assumes "y \<in> set (rmatch (Seq (Opt (Lit (js ''www.''))) (Seq youtube_hosts b)) x)"
  shows "x \<noteq> [] \<and> youtube_first (hd x)"
proof -
  from assms obtain z where zo: "z \<in> set (rmatch (Opt (Lit (js ''www.''))) x)"
    and zh: "y \<in> set (rmatch (Seq youtube_hosts b) z)"
    by (auto simp only: rmatch_Seq_iff)
  from zh have h: "z \<noteq> [] \<and> youtube_first (hd z)" by (rule hosts_first)
  from zo have "z = x \<or> x = js ''www.'' @ z" by (simp only: rmatch_Opt_iff rmatch_Lit_iff)
  then show ?thesis
  proof
    assume "z = x" with h show ?thesis by simp
  next
    assume "x = js ''www.'' @ z" then show ?thesis by (simp add: js_def youtube_first_def)
  qed
qed

text \<open>No string matches both patterns.\<close>

lemma patterns_disjoint:
  assumes y: "test youtube_re s" and d: "test drive_re s"
  shows False
proof -
  from y obtain x where x: "x \<in> set (rmatch scheme_re s)"
    and "[] \<in> set (rmatch (Seq (Opt (Lit (js ''www.''))) (Seq youtube_hosts path_re)) x)"
    unfolding test_def youtube_re_def by (auto simp only: rmatch_Seq_iff [of _ scheme_re])
  then have xf: "x \<noteq> [] \<and> youtube_first (hd x)" using www_hosts_first by blast
  from d obtain z where z: "z \<in> set (rmatch scheme_re s)"
    and "[] \<in> set (rmatch (Seq (Lit (js ''drive.google.com'')) path_re) z)"
    unfolding test_def drive_re_def by (auto simp only: rmatch_Seq_iff [of _ scheme_re])
  then have zf: "z \<noteq> [] \<and> hd z = of_char CHR ''d''" using drive_first by blast
  from xf obtain a x' where xc: "x = a # x'" "youtube_first a" by (cases x) auto
  from zf obtain z' where zc: "z = 100 # z'" by (cases z) auto
  from xc have ne: "a \<noteq> 100" "a \<noteq> 104" by (auto simp: youtube_first_def js_def)
  from scheme_cases [OF x] scheme_cases [OF z] show False
    unfolding xc zc using ne by (elim disjE) (simp_all add: js_def)
qed

lemma accepts_share_iff:
  "accepts (formSchema_share rest) v \<longleftrightarrow>
     5 \<le> length (topic v) \<and> 1 \<le> length (sv_subject v) \<and> zod_url rest (url v) \<and> refinement v"
  by (cases "sv_subject v") (auto simp: accepts_def formSchema_share_def)

lemma youtube_url_matches: "test youtube_re (js ''https://www.youtube.com/watch?v=abc'')"
  by (simp add: regex_eval)

lemma schemeless_matches: "test youtube_re (js ''youtube.com/watch?v=abc'')"
  by (simp add: regex_eval)

lemma drive_url_matches: "test drive_re (js ''https://drive.google.com/file/d/1'')"
  by (simp add: regex_eval)

lemma youtube_url_scheme: "has_scheme (js ''https://www.youtube.com/watch?v=abc'')"
  by (simp add: scheme_eval)

lemma drive_url_scheme: "has_scheme (js ''https://drive.google.com/file/d/1'')"
  by (simp add: scheme_eval)

lemma schemeless_no_scheme: "\<not> has_scheme (js ''youtube.com/watch?v=abc'')"
  by (simp add: scheme_eval)

text \<open>
  Claim C2, as stated, at a URL without a scheme: \<^verbatim>\<open>youtube.com/watch?v=abc\<close> matches
  the YouTube pattern, it is submitted with the resource type \<^verbatim>\<open>youtube\<close> and with a
  valid topic and subject, and the schema rejects it, even where the URL parser would
  accept everything that has a scheme: the \<^verbatim>\<open>url()\<close> rule of the field fails.
\<close>

theorem share_url_counterexample:
  "test youtube_re (js ''youtube.com/watch?v=abc'')
   \<and> 5 \<le> length (topic (share_example (js ''youtube.com/watch?v=abc'') youtube))
   \<and> 1 \<le> length (sv_subject (share_example (js ''youtube.com/watch?v=abc'') youtube))
   \<and> \<not> accepts (formSchema_share (\<lambda>_. True)) (share_example (js ''youtube.com/watch?v=abc'') youtube)"
  using schemeless_matches schemeless_no_scheme
  by (simp add: accepts_share_iff zod_url_def share_example_def js_def)

text \<open>The same for every behaviour of the rest of the URL parser.\<close>

lemma schemeless_rejected:
  "\<not> accepts (formSchema_share rest) (share_example (js ''youtube.com/watch?v=abc'') youtube)"
  using schemeless_no_scheme by (simp add: accepts_share_iff zod_url_def share_example_def)

text \<open>
  Claim C2, amended. A URL that matches the YouTube pattern is rejected with the resource
  type \<^verbatim>\<open>drive\<close>, and a URL that matches the Drive pattern is rejected with the resource
  type \<^verbatim>\<open>youtube\<close>. The form is accepted exactly when the topic has at least 5
  characters, a subject is selected, the URL passes the field's own \<^verbatim>\<open>url()\<close> rule and
  it matches the pattern of the selected resource type: the pattern that applies depends
  on the pair of resource type and URL.
\<close>

theorem share_url_rule:
  "(test youtube_re (url v) \<and> resourceType v = drive \<longrightarrow> \<not> accepts (formSchema_share rest) v)
   \<and> (test drive_re (url v) \<and> resourceType v = youtube \<longrightarrow> \<not> accepts (formSchema_share rest) v)
   \<and> (accepts (formSchema_share rest) v \<longleftrightarrow>
        5 \<le> length (topic v) \<and> 1 \<le> length (sv_subject v) \<and> zod_url rest (url v)
        \<and> (case resourceType v of
              youtube \<Rightarrow> test youtube_re (url v)
            | drive \<Rightarrow> test drive_re (url v)))"
proof (intro conjI impI)
  assume "test youtube_re (url v) \<and> resourceType v = drive"
  then show "\<not> accepts (formSchema_share rest) v"
    using patterns_disjoint [of "url v"] by (auto simp: accepts_share_iff refinement_def)
next
  assume "test drive_re (url v) \<and> resourceType v = youtube"
  then show "\<not> accepts (formSchema_share rest) v"
    using patterns_disjoint [of "url v"] by (auto simp: accepts_share_iff refinement_def)
next
  show "accepts (formSchema_share rest) v \<longleftrightarrow>
        5 \<le> length (topic v) \<and> 1 \<le> length (sv_subject v) \<and> zod_url rest (url v)
        \<and> (case resourceType v of
              youtube \<Rightarrow> test youtube_re (url v)
            | drive \<Rightarrow> test drive_re (url v))"
    by (simp add: accepts_share_iff refinement_def)
qed

theorem share_url_rule_witness:
  "\<not> accepts (formSchema_share (\<lambda>_. True)) (share_example (js ''https://www.youtube.com/watch?v=abc'') drive)
   \<and> \<not> accepts (formSchema_share (\<lambda>_. True)) (share_example (js ''https://drive.google.com/file/d/1'') youtube)
   \<and> accepts (formSchema_share (\<lambda>_. True)) (share_example (js ''https://www.youtube.com/watch?v=abc'') youtube)
   \<and> accepts (formSchema_share (\<lambda>_. True)) (share_example (js ''https://drive.google.com/file/d/1'') drive)"
  using share_url_rule [of "share_example (js ''https://www.youtube.com/watch?v=abc'') drive" "\<lambda>_. True"]
    share_url_rule [of "share_example (js ''https://drive.google.com/file/d/1'') youtube" "\<lambda>_. True"]
    share_url_rule [of "share_example (js ''https://www.youtube.com/watch?v=abc'') youtube" "\<lambda>_. True"]
    share_url_rule [of "share_example (js ''https://drive.google.com/file/d/1'') drive" "\<lambda>_. True"]
    youtube_url_matches drive_url_matches youtube_url_scheme drive_url_scheme
  by (simp add: share_example_def zod_url_def js_def)

section \<open>Validation before any write\<close>

lemma doubt_issue_fields: "fst ` set (formSchema_doubt v) \<subseteq> {''subject'', ''description''}"
  by (auto simp: formSchema_doubt_def)

lemma share_issue_fields: "fst ` set (formSchema_share rest v) \<subseteq> {''topic'', ''subject'', ''url''}"
  by (auto simp: formSchema_share_def)

text \<open>
  Claim C3. Submitting the ask-doubt form or the share-resource form with values on which
  the form's schema reports an issue appends no call to the document store, leaves the
  values in the form, and sets the form's field-level errors to the issues of the schema,
  each attached to a field of the form. A submission that issues a call to the store is
  one whose values the schema accepts.
\<close>

theorem validation_gates_writes:
  "(formSchema_doubt (form_values st) \<noteq> [] \<longrightarrow>
      store_calls (submit_doubt usr db res st) = store_calls st
      \<and> form_errors (submit_doubt usr db res st) = formSchema_doubt (form_values st)
      \<and> form_values (submit_doubt usr db res st) = form_values st)
   \<and> (formSchema_share rest (form_values sh) \<noteq> [] \<longrightarrow>
      store_calls (submit_share rest usr db res sh) = store_calls sh
      \<and> form_errors (submit_share rest usr db res sh) = formSchema_share rest (form_values sh)
      \<and> form_values (submit_share rest usr db res sh) = form_values sh)
   \<and> (store_calls (submit_doubt usr db res st) \<noteq> store_calls st \<longrightarrow>
      formSchema_doubt (form_values st) = [])
   \<and> (store_calls (submit_share rest usr db res sh) \<noteq> store_calls sh \<longrightarrow>
      formSchema_share rest (form_values sh) = [])
   \<and> fst ` set (formSchema_doubt (form_values st)) \<subseteq> {''subject'', ''description''}
   \<and> fst ` set (formSchema_share rest (form_values sh)) \<subseteq> {''topic'', ''subject'', ''url''}"
  using doubt_issue_fields [of "form_values st"] share_issue_fields [of rest "form_values sh"]
  by (simp add: submit_doubt_def submit_share_def form_handleSubmit_def Let_def)

lemma short_doubt_issues:
  "formSchema_doubt short_doubt = [(''description'', js ''Description must be at least 10 characters.'')]"
  by (simp add: formSchema_doubt_def short_doubt_def js_def)

theorem validation_gates_writes_witness:
  "store_calls (submit_doubt (Some alice) True (Fulfilled (js ''D1'')) (page_with short_doubt)) = []
   \<and> form_errors (submit_doubt (Some alice) True (Fulfilled (js ''D1'')) (page_with short_doubt))
      = [(''description'', js ''Description must be at least 10 characters.'')]
   \<and> store_calls (submit_share (\<lambda>_. True) (Some alice) True (Fulfilled (js ''D1''))
        (page_with (share_example (js ''youtube.com/watch?v=abc'') youtube))) = []
   \<and> form_errors (submit_share (\<lambda>_. True) (Some alice) True (Fulfilled (js ''D1''))
        (page_with (share_example (js ''youtube.com/watch?v=abc'') youtube))) \<noteq> []"
  using validation_gates_writes [where st = "page_with short_doubt" and usr = "Some alice"
      and db = True and res = "Fulfilled (js ''D1'')" and rest = "\<lambda>_. True"
      and sh = "page_with (share_example (js ''youtube.com/watch?v=abc'') youtube)"]
    short_doubt_issues schemeless_rejected [of "\<lambda>_. True"]
  by (simp add: page_with_def accepts_def)

section \<open>Remote failure of a form-gated mutation\<close>

text \<open>
  Claim C7. For a signed-in user with the store initialised, when the write of a posted
  doubt or of a shared resource is rejected, the page's one \<open>error\<close> state is set to its
  fixed message, no toast is raised, and the form's values and field-level errors are
  what they were; when the write of an answer is rejected, one destructive toast is
  raised and the typed answer stays. On a fulfilled write the fields return to their
  defaults (the answer to the empty string). In each of the three handlers, field values
  that differ after the handler mean that the write was not rejected.
\<close>

theorem remote_failure_keeps_form:
  "(usr = Some u \<and> db \<longrightarrow>
      error_state (onSubmit_doubt usr db (Rejected e) v st) = Some (js
        ''Post Failed: An unexpected error occurred. Please check the console for details.'')
      \<and> form_values (onSubmit_doubt usr db (Rejected e) v st) = form_values st
      \<and> form_errors (onSubmit_doubt usr db (Rejected e) v st) = form_errors st
      \<and> toasts (onSubmit_doubt usr db (Rejected e) v st) = toasts st
      \<and> form_values (onSubmit_doubt usr db (Fulfilled i) v st) = defaultValues_doubt)
   \<and> (usr = Some u \<and> db \<longrightarrow>
      error_state (onSubmit_share usr db (Rejected e) w sh) = Some (js
        ''An unexpected error occurred while saving your resource. Please try again.'')
      \<and> form_values (onSubmit_share usr db (Rejected e) w sh) = form_values sh
      \<and> form_errors (onSubmit_share usr db (Rejected e) w sh) = form_errors sh
      \<and> toasts (onSubmit_share usr db (Rejected e) w sh) = toasts sh
      \<and> form_values (onSubmit_share usr db (Fulfilled i) w sh) = defaultValues_share)
   \<and> (usr = Some u \<and> db \<and> trim (answer dl) \<noteq> [] \<longrightarrow>
      toasts (handleSubmit_answer usr db (Rejected e) d dl) = toasts dl @
        [\<lparr>t_destructive = True, t_title = js ''Error'',
          t_description = Some (js ''Could not submit your answer.'')\<rparr>]
      \<and> answer (handleSubmit_answer usr db (Rejected e) d dl) = answer dl
      \<and> answer (handleSubmit_answer usr db (Fulfilled i) d dl) = [])
   \<and> (form_values (onSubmit_doubt usr db res v st) \<noteq> form_values st \<longrightarrow> \<not> is_rejected res)
   \<and> (form_values (onSubmit_share usr db res w sh) \<noteq> form_values sh \<longrightarrow> \<not> is_rejected res)
   \<and> (answer (handleSubmit_answer usr db res d dl) \<noteq> answer dl \<longrightarrow> \<not> is_rejected res)"
  by (simp add: onSubmit_doubt_def onSubmit_share_def handleSubmit_answer_def form_reset_def
      Let_def is_rejected_def split: option.splits settled.splits)

lemma trim_example: "trim (js ''It is a self-balancing BST.'') \<noteq> []"
  by (simp add: trim_def js_def js_whitespace_def)

theorem remote_failure_keeps_form_witness:
  "error_state (onSubmit_doubt (Some alice) True (Rejected unavailable) doubt_example
      (page_with doubt_example)) = Some (js
        ''Post Failed: An unexpected error occurred. Please check the console for details.'')
   \<and> form_values (onSubmit_doubt (Some alice) True (Rejected unavailable) doubt_example
      (page_with doubt_example)) = doubt_example
   \<and> form_values (onSubmit_share (Some alice) True (Rejected unavailable)
      (share_example (js ''https://www.youtube.com/watch?v=abc'') youtube)
      (page_with (share_example (js ''https://www.youtube.com/watch?v=abc'') youtube)))
      = share_example (js ''https://www.youtube.com/watch?v=abc'') youtube
   \<and> answer (handleSubmit_answer (Some alice) True (Rejected unavailable)
      (doubt_of (js ''D1'') (js ''U2'') False) (dialog_with (js ''It is a self-balancing BST.'')))
      = js ''It is a self-balancing BST.''
   \<and> answer (handleSubmit_answer (Some alice) True (Fulfilled (js ''A1''))
      (doubt_of (js ''D1'') (js ''U2'') False) (dialog_with (js ''It is a self-balancing BST.'')))
      = []"
  using remote_failure_keeps_form [where usr = "Some alice" and u = alice and db = True
      and e = unavailable and v = doubt_example and st = "page_with doubt_example"
      and w = "share_example (js ''https://www.youtube.com/watch?v=abc'') youtube"
      and sh = "page_with (share_example (js ''https://www.youtube.com/watch?v=abc'') youtube)"
      and d = "doubt_of (js ''D1'') (js ''U2'') False"
      and dl = "dialog_with (js ''It is a self-balancing BST.'')" and i = "js ''A1''"
      and res = "Rejected unavailable"]
    trim_example
  by (simp add: page_with_def dialog_with_def)

section \<open>Submitting an answer\<close>

lemma trim_empty_iff: "trim s = [] \<longleftrightarrow> (\<forall>c\<in>set s. js_whitespace c)"
proof
  assume "trim s = []"
  then have a: "\<forall>x\<in>set (dropWhile js_whitespace s). js_whitespace x"
    by (simp add: trim_def dropWhile_eq_Nil_conv)
  have "dropWhile js_whitespace s = []"
  proof (rule ccontr)
    assume n: "dropWhile js_whitespace s \<noteq> []"
    then have "\<not> js_whitespace (hd (dropWhile js_whitespace s))" by (rule hd_dropWhile)
    moreover from n have "hd (dropWhile js_whitespace s) \<in> set (dropWhile js_whitespace s)" by simp
    ultimately show False using a by blast
  qed
  then show "\<forall>c\<in>set s. js_whitespace c" by (simp add: dropWhile_eq_Nil_conv)
next
  assume "\<forall>c\<in>set s. js_whitespace c"
  then have d: "dropWhile js_whitespace s = []" by (simp add: dropWhile_eq_Nil_conv)
  show "trim s = []" unfolding trim_def d by simp
qed

text \<open>
  Claim C10. When the typed answer is empty or has white space only, the handler appends
  no call to the store, raises one destructive toast and leaves the typed text, whoever
  is signed in. When the text has another character, the user is signed in and the store
  is initialised, the handler appends exactly one call: an \<^verbatim>\<open>addDoc\<close> to the
  collection \<^verbatim>\<open>answers\<close> whose \<^verbatim>\<open>doubtId\<close> is the id of the doubt of the dialog
  and whose \<^verbatim>\<open>userId\<close> is the uid of the user. A store that carries the call out
  under a new id differs afterwards by that one document.
\<close>

theorem answer_submission:
  "((\<forall>c\<in>set (answer dl). js_whitespace c) \<longrightarrow>
      store_calls (handleSubmit_answer usr db res d dl) = store_calls dl
      \<and> answer (handleSubmit_answer usr db res d dl) = answer dl
      \<and> (\<exists>t. toasts (handleSubmit_answer usr db res d dl) = toasts dl @ [t] \<and> t_destructive t))
   \<and> (\<not> (\<forall>c\<in>set (answer dl). js_whitespace c) \<and> usr = Some u \<and> db \<longrightarrow>
      store_calls (handleSubmit_answer usr db res d dl) = store_calls dl @
        [AddDoc ''answers''
           [(''doubtId'', Str (rec_id d)), (''userId'', Str (uid u)),
            (''userName'', nullable (displayName u)), (''text'', Str (answer dl)),
            (''createdAt'', ServerTimestamp)]])
   \<and> (\<not> (\<forall>c\<in>set (answer dl). js_whitespace c) \<and> usr = Some u \<and> db
        \<and> s (''answers'', new) = None \<longrightarrow>
      apply_calls s (map (Pair new)
          (drop (length (store_calls dl)) (store_calls (handleSubmit_answer usr db res d dl))))
        = s((''answers'', new) \<mapsto> map_of
            [(''doubtId'', Str (rec_id d)), (''userId'', Str (uid u)),
             (''userName'', nullable (displayName u)), (''text'', Str (answer dl)),
             (''createdAt'', ServerTimestamp)]))"
  unfolding trim_empty_iff [symmetric]
  by (auto simp add: handleSubmit_answer_def Let_def split: option.splits settled.splits)

theorem answer_submission_witness:
  "store_calls (handleSubmit_answer (Some alice) True (Fulfilled (js ''A1''))
      (doubt_of (js ''D1'') (js ''U2'') False) (dialog_with (js ''   ''))) = []
   \<and> answer (handleSubmit_answer (Some alice) True (Fulfilled (js ''A1''))
      (doubt_of (js ''D1'') (js ''U2'') False) (dialog_with (js ''   ''))) = js ''   ''
   \<and> store_calls (handleSubmit_answer (Some alice) True (Fulfilled (js ''A1''))
      (doubt_of (js ''D1'') (js ''U2'') False) (dialog_with (js ''It is a self-balancing BST.'')))
      = [AddDoc ''answers''
           [(''doubtId'', Str (js ''D1'')), (''userId'', Str (js ''U1'')),
            (''userName'', Str (js ''Alice'')), (''text'', Str (js ''It is a self-balancing BST.'')),
            (''createdAt'', ServerTimestamp)]]"
  using answer_submission [where dl = "dialog_with (js ''   '')" and usr = "Some alice"
      and db = True and res = "Fulfilled (js ''A1'')" and d = "doubt_of (js ''D1'') (js ''U2'') False"
      and u = alice]
    answer_submission [where dl = "dialog_with (js ''It is a self-balancing BST.'')"
      and usr = "Some alice" and db = True and res = "Fulfilled (js ''A1'')"
      and d = "doubt_of (js ''D1'') (js ''U2'') False" and u = alice]
  by (simp add: dialog_with_def js_def js_whitespace_def doubt_of_def alice_def nullable_def)

section \<open>Errors of the live query subscriptions\<close>

lemma index_required_distinct: "index_required \<noteq> unexpected_error m"
  by (simp add: index_required_def unexpected_error_def js_def)

lemma index_required_nonempty: "index_required \<noteq> []"
  by (simp add: index_required_def js_def)

lemma unexpected_error_nonempty: "unexpected_error m \<noteq> []"
  by (simp add: unexpected_error_def js_def)

text \<open>
  Claim C5, as stated, on the doubts feed: its listener raises the same toast,
  \<^verbatim>\<open>Could not fetch doubts.\<close>, for an error with the code \<^verbatim>\<open>failed-precondition\<close>
  and for an error with another code.
\<close>

theorem index_error_counterexample:
  "toasts (DoubtsFeed_on DoubtsFeed_init (Err index_missing))
     = [\<lparr>t_destructive = True, t_title = js ''Error'',
         t_description = Some (js ''Could not fetch doubts.'')\<rparr>]
   \<and> toasts (DoubtsFeed_on DoubtsFeed_init (Err unavailable))
     = [\<lparr>t_destructive = True, t_title = js ''Error'',
         t_description = Some (js ''Could not fetch doubts.'')\<rparr>]
   \<and> code index_missing = js ''failed-precondition''
   \<and> code unavailable \<noteq> js ''failed-precondition''"
  by (simp add: DoubtsFeed_init_def index_missing_def unavailable_def js_def)

text \<open>
  Claim C5, amended. The answers list, the one live query with a filter and an ordering,
  tells the two apart: on an error with the code \<^verbatim>\<open>failed-precondition\<close> it holds and
  shows the message that asks for the index to be created, on any other error the
  generic message followed by the error's own text, and the two messages differ. The
  doubts feed and the resource library surface one fixed message for every error.
\<close>

theorem answers_index_error:
  "(code e = js ''failed-precondition'' \<longrightarrow>
      fetchError (AnswerList_on st (Err e)) = Some index_required
      \<and> AnswerList_view (AnswerList_on st (Err e)) = AnswersAlert index_required)
   \<and> (code e \<noteq> js ''failed-precondition'' \<longrightarrow>
      fetchError (AnswerList_on st (Err e)) = Some (unexpected_error (message e))
      \<and> AnswerList_view (AnswerList_on st (Err e)) = AnswersAlert (unexpected_error (message e)))
   \<and> index_required \<noteq> unexpected_error m
   \<and> toasts (DoubtsFeed_on fd (Err e)) = toasts fd @
        [\<lparr>t_destructive = True, t_title = js ''Error'',
          t_description = Some (js ''Could not fetch doubts.'')\<rparr>]
   \<and> np_error (NotesPage_on np (Err e)) = Some (js ''Failed to fetch resources from the database.'')"
  using index_required_distinct [of m] index_required_nonempty unexpected_error_nonempty [of "message e"]
  by (simp add: AnswerList_view_def)

theorem answers_index_error_witness:
  "fetchError (AnswerList_on (AnswerList_init :: jsstring answer_list) (Err index_missing))
     = Some index_required
   \<and> fetchError (AnswerList_on (AnswerList_init :: jsstring answer_list) (Err unavailable))
     = Some (unexpected_error (js ''The service is currently unavailable.''))"
  using answers_index_error [where e = index_missing and st = "AnswerList_init :: jsstring answer_list"]
    answers_index_error [where e = unavailable and st = "AnswerList_init :: jsstring answer_list"]
  by (simp add: index_missing_def unavailable_def js_def)

lemma AnswerList_on_Err: "fetchError (AnswerList_on st (Err e)) = Some (AnswerList_message e)"
  by (simp add: AnswerList_message_def)

lemma AnswerList_view_Err:
  "AnswerList_view (AnswerList_on st (Err e)) = AnswersAlert (AnswerList_message e)"
  using index_required_nonempty unexpected_error_nonempty [of "message e"]
  by (simp add: AnswerList_view_def AnswerList_message_def)

text \<open>A run of error callbacks only, begun with one, leaves an alert on display.\<close>

lemma AnswerList_errors_alert:
  assumes "\<forall>ev\<in>set post. is_error ev"
  shows "\<exists>m. AnswerList_view (foldl AnswerList_on (AnswerList_on st (Err e)) post) = AnswersAlert m"
  using assms
proof (induction post rule: rev_induct)
  case Nil
  then show ?case by (simp only: foldl_Nil AnswerList_view_Err) blast
next
  case (snoc ev post)
  from snoc.prems obtain e' where "ev = Err e'" by (cases ev) (auto simp: is_error_def)
  then have "AnswerList_view (foldl AnswerList_on (AnswerList_on st (Err e)) (post @ [ev]))
      = AnswersAlert (AnswerList_message e')"
    by (simp only: foldl_append foldl_Cons foldl_Nil AnswerList_view_Err)
  then show ?case by blast
qed

lemma NotesPage_error_kept:
  "np_error st = Some (js ''Failed to fetch resources from the database.'')
   \<Longrightarrow> np_error (foldl NotesPage_on st evs) = Some (js ''Failed to fetch resources from the database.'')"
proof (induction evs arbitrary: st)
  case Nil
  then show ?case by simp
next
  case (Cons ev evs)
  then show ?case by (cases ev) simp_all
qed

lemma NotesPage_error_set:
  "Err e \<in> set evs
   \<Longrightarrow> np_error (foldl NotesPage_on st evs) = Some (js ''Failed to fetch resources from the database.'')"
proof (induction evs arbitrary: st)
  case Nil
  then show ?case by simp
next
  case (Cons ev evs)
  show ?case
  proof (cases ev)
    case (Next x1)
    with Cons show ?thesis by simp
  next
    case (Err x2)
    then show ?thesis using NotesPage_error_kept [of "NotesPage_on st ev" evs] by simp
  qed
qed

lemma NotesPage_alert_shown:
  assumes "np_error st = Some (js ''Failed to fetch resources from the database.'')"
  shows "nv_alert (NotesPage_view st) = Some (js ''Failed to fetch resources from the database.'')
    \<and> nv_cards (NotesPage_view st) = [] \<and> \<not> nv_empty (NotesPage_view st)"
  using assms by (simp add: NotesPage_view_def js_def)

text \<open>
  Claim C6, as stated, on two of the three subscriptions. In the answers list the success
  callback resets the error: after an error and then a snapshot the component holds no
  error and shows the list (here: that there are no answers). In the doubts feed the
  error callback sets no error state: after it the feed holds the doubts and the
  \<open>loading\<close> flag it holds after an empty snapshot, and renders the card of an empty
  feed; the error went into a toast only.
\<close>

theorem sticky_error_counterexample:
  "fetchError (foldl AnswerList_on (AnswerList_init :: jsstring answer_list)
      [Err unavailable, Next []]) = None
   \<and> AnswerList_view (foldl AnswerList_on (AnswerList_init :: jsstring answer_list)
      [Err unavailable, Next []]) = NoAnswers
   \<and> DoubtsFeed_view None (DoubtsFeed_on DoubtsFeed_init (Err unavailable)) = EmptyFeed
   \<and> doubts (DoubtsFeed_on DoubtsFeed_init (Err unavailable))
       = doubts (DoubtsFeed_on DoubtsFeed_init (Next []))
   \<and> df_loading (DoubtsFeed_on DoubtsFeed_init (Err unavailable))
       = df_loading (DoubtsFeed_on DoubtsFeed_init (Next []))"
  by (simp add: DoubtsFeed_init_def DoubtsFeed_view_def AnswerList_init_def AnswerList_view_def)

text \<open>
  Claim C6, amended. Of the three live query subscriptions, whatever events came before
  and whatever events follow:
  \<^item> the answers list holds and displays the message of an error from its error callback
    on, through any further error callbacks, until a snapshot is delivered to the
    component; the success callback resets the error, so after a snapshot no error is
    held;
  \<^item> the resource library holds and displays its error message, in place of the
    resources, from the first error callback on, through every later event, snapshots
    included;
  \<^item> the doubts feed keeps no error state: its error callback raises one toast, turns
    \<open>loading\<close> off and leaves the doubts, which the feed goes on rendering.
  A component that is mounted again starts with no error.
\<close>

theorem error_state_sticky:
  "fetchError (foldl AnswerList_on st (evs @ [Err e])) = Some (AnswerList_message e)
   \<and> AnswerList_view (foldl AnswerList_on st (evs @ [Err e])) = AnswersAlert (AnswerList_message e)
   \<and> ((\<forall>ev\<in>set post. is_error ev) \<longrightarrow>
        (\<exists>m. AnswerList_view (foldl AnswerList_on st (evs @ Err e # post)) = AnswersAlert m))
   \<and> fetchError (foldl AnswerList_on st (evs @ [Next q])) = None
   \<and> (Err e' \<in> set evs' \<longrightarrow>
        np_error (foldl NotesPage_on np evs') = Some (js ''Failed to fetch resources from the database.'')
        \<and> nv_alert (NotesPage_view (foldl NotesPage_on np evs'))
            = Some (js ''Failed to fetch resources from the database.'')
        \<and> nv_cards (NotesPage_view (foldl NotesPage_on np evs')) = []
        \<and> \<not> nv_empty (NotesPage_view (foldl NotesPage_on np evs')))
   \<and> doubts (DoubtsFeed_on fd (Err e)) = doubts fd
   \<and> \<not> df_loading (DoubtsFeed_on fd (Err e))
   \<and> toasts (DoubtsFeed_on fd (Err e)) = toasts fd @
        [\<lparr>t_destructive = True, t_title = js ''Error'',
          t_description = Some (js ''Could not fetch doubts.'')\<rparr>]
   \<and> DoubtsFeed_view usr (DoubtsFeed_on fd (Err e))
        = (if doubts fd = [] then EmptyFeed else Grid (map (render_card usr) (doubts fd)))
   \<and> fetchError (AnswerList_init :: 'a answer_list) = None
   \<and> np_error (NotesPage_init :: 'b notes_page) = None"
proof -
  have a: "fetchError (foldl AnswerList_on st (evs @ [Err e])) = Some (AnswerList_message e)"
    by (simp only: foldl_append foldl_Cons foldl_Nil AnswerList_on_Err)
  have b: "AnswerList_view (foldl AnswerList_on st (evs @ [Err e])) = AnswersAlert (AnswerList_message e)"
    by (simp only: foldl_append foldl_Cons foldl_Nil AnswerList_view_Err)
  have c: "(\<forall>ev\<in>set post. is_error ev) \<longrightarrow>
        (\<exists>m. AnswerList_view (foldl AnswerList_on st (evs @ Err e # post)) = AnswersAlert m)"
    using AnswerList_errors_alert [of post "foldl AnswerList_on st evs" e] by simp
  have d: "fetchError (foldl AnswerList_on st (evs @ [Next q])) = None"
    by simp
  have n: "Err e' \<in> set evs' \<longrightarrow>
        np_error (foldl NotesPage_on np evs') = Some (js ''Failed to fetch resources from the database.'')
        \<and> nv_alert (NotesPage_view (foldl NotesPage_on np evs'))
            = Some (js ''Failed to fetch resources from the database.'')
        \<and> nv_cards (NotesPage_view (foldl NotesPage_on np evs')) = []
        \<and> \<not> nv_empty (NotesPage_view (foldl NotesPage_on np evs'))"
    using NotesPage_error_set [of e' evs' np]
      NotesPage_alert_shown [of "foldl NotesPage_on np evs'"] by blast
  have f: "doubts (DoubtsFeed_on fd (Err e)) = doubts fd
     \<and> \<not> df_loading (DoubtsFeed_on fd (Err e))
     \<and> toasts (DoubtsFeed_on fd (Err e)) = toasts fd @
        [\<lparr>t_destructive = True, t_title = js ''Error'',
          t_description = Some (js ''Could not fetch doubts.'')\<rparr>]
     \<and> DoubtsFeed_view usr (DoubtsFeed_on fd (Err e))
        = (if doubts fd = [] then EmptyFeed else Grid (map (render_card usr) (doubts fd)))"
    by (simp add: DoubtsFeed_view_def)
  have g: "fetchError (AnswerList_init :: 'a answer_list) = None
     \<and> np_error (NotesPage_init :: 'b notes_page) = None"
    by (simp add: AnswerList_init_def NotesPage_init_def)
  from a b c d n f g show ?thesis by blast
qed

theorem error_state_sticky_witness:
  "fetchError (foldl AnswerList_on (AnswerList_init :: jsstring answer_list)
      ([Next [\<lparr>doc_id = js ''A1'', doc_data = js ''It is a self-balancing BST.''\<rparr>],
        Err index_missing] @ [Err unavailable]))
     = Some (unexpected_error (js ''The service is currently unavailable.''))
   \<and> (\<exists>m. AnswerList_view (foldl AnswerList_on (AnswerList_init :: jsstring answer_list)
      ([Next [\<lparr>doc_id = js ''A1'', doc_data = js ''It is a self-balancing BST.''\<rparr>]]
        @ Err index_missing # [Err unavailable])) = AnswersAlert m)
   \<and> nv_alert (NotesPage_view (foldl NotesPage_on (NotesPage_init :: jsstring notes_page)
      [Err unavailable, Next [\<lparr>doc_id = js ''N1'', doc_data = js ''Quick Sort''\<rparr>]]))
     = Some (js ''Failed to fetch resources from the database.'')
   \<and> nv_cards (NotesPage_view (foldl NotesPage_on (NotesPage_init :: jsstring notes_page)
      [Err unavailable, Next [\<lparr>doc_id = js ''N1'', doc_data = js ''Quick Sort''\<rparr>]])) = []"
proof -
  have i: "\<forall>ev\<in>set [Err unavailable :: jsstring sub_event]. is_error ev"
    by (simp add: is_error_def)
  have m: "Err unavailable \<in> set [Err unavailable,
      Next [\<lparr>doc_id = js ''N1'', doc_data = js ''Quick Sort''\<rparr>]]"
    by simp
  have u: "AnswerList_message unavailable = unexpected_error (js ''The service is currently unavailable.'')"
    by (simp add: AnswerList_message_def unavailable_def js_def)
  have "fetchError (foldl AnswerList_on (AnswerList_init :: jsstring answer_list)
      ([Next [\<lparr>doc_id = js ''A1'', doc_data = js ''It is a self-balancing BST.''\<rparr>],
        Err index_missing] @ [Err unavailable])) = Some (AnswerList_message unavailable)"
    using error_state_sticky [where st = "AnswerList_init :: jsstring answer_list"
        and evs = "[Next [\<lparr>doc_id = js ''A1'', doc_data = js ''It is a self-balancing BST.''\<rparr>],
                    Err index_missing]"
        and e = unavailable]
    by blast
  moreover have "\<exists>m. AnswerList_view (foldl AnswerList_on (AnswerList_init :: jsstring answer_list)
      ([Next [\<lparr>doc_id = js ''A1'', doc_data = js ''It is a self-balancing BST.''\<rparr>]]
        @ Err index_missing # [Err unavailable])) = AnswersAlert m"
    using i error_state_sticky [where st = "AnswerList_init :: jsstring answer_list"
        and evs = "[Next [\<lparr>doc_id = js ''A1'', doc_data = js ''It is a self-balancing BST.''\<rparr>]]"
        and e = index_missing and post = "[Err unavailable]"]
    by blast
  moreover have "nv_alert (NotesPage_view (foldl NotesPage_on (NotesPage_init :: jsstring notes_page)
      [Err unavailable, Next [\<lparr>doc_id = js ''N1'', doc_data = js ''Quick Sort''\<rparr>]]))
     = Some (js ''Failed to fetch resources from the database.'')
   \<and> nv_cards (NotesPage_view (foldl NotesPage_on (NotesPage_init :: jsstring notes_page)
      [Err unavailable, Next [\<lparr>doc_id = js ''N1'', doc_data = js ''Quick Sort''\<rparr>]])) = []"
    using m error_state_sticky [where np = "NotesPage_init :: jsstring notes_page"
        and evs' = "[Err unavailable, Next [\<lparr>doc_id = js ''N1'', doc_data = js ''Quick Sort''\<rparr>]]"
        and e' = unavailable]
    by blast
  ultimately show ?thesis unfolding u by blast
qed

section \<open>The resolve affordance\<close>

text \<open>
  Claim C9. Where the doubts feed renders its doubts, it renders one card per doubt, in
  order, and the card of a doubt carries the Resolve button exactly when a user is signed
  in whose uid is the doubt's \<^verbatim>\<open>userId\<close> and the doubt is not resolved. So for a
  viewer who is not the author, signed in or not, the button is absent.
\<close>

theorem resolve_button_iff:
  assumes "DoubtsFeed_view usr st = Grid cards"
  shows "map card_doubt cards = doubts st
    \<and> (\<forall>c\<in>set cards. resolve_button c \<longleftrightarrow>
          (\<exists>u. usr = Some u \<and> uid u = userId (rec_data (card_doubt c)))
          \<and> \<not> isResolved (rec_data (card_doubt c)))"
proof -
  from assms have c: "cards = map (render_card usr) (doubts st)"
    by (simp add: DoubtsFeed_view_def split: if_splits)
  show ?thesis unfolding c
    by (auto simp: render_card_def shows_resolve_def comp_def split: option.splits)
qed

theorem resolve_button_iff_witness:
  "DoubtsFeed_view (Some alice) feed_example = Grid (map (render_card (Some alice)) (doubts feed_example))
   \<and> map resolve_button (map (render_card (Some alice)) (doubts feed_example)) = [True, False, False]
   \<and> map resolve_button (map (render_card None) (doubts feed_example)) = [False, False, False]"
  using resolve_button_iff [of "Some alice" feed_example "map (render_card (Some alice)) (doubts feed_example)"]
  by (simp add: DoubtsFeed_view_def feed_example_def render_card_def shows_resolve_def doubt_of_def
      alice_def js_def)

section \<open>Sign-up in two phases\<close>

lemma signup_messages_distinct: "signup_incomplete \<noteq> creation_failed e"
  by (simp add: signup_incomplete_def creation_failed_def js_def)

text \<open>
  What the second step does. With both services initialised, once the identity is created
  and its display name is set, the handler issues exactly one write: a \<^verbatim>\<open>setDoc\<close> of
  the document \<^verbatim>\<open>users/{uid}\<close> with exactly the fields uid, name, email and
  upvoteScore 0. When that write is rejected, the page shows the message of an incomplete
  sign-up, which says that the account was created; no further call goes to the
  authentication service, the user is not redirected, and the message differs from every
  message of a failed account creation.
\<close>

lemma signup_profile_write:
  assumes "auth" and "db" and "created = Fulfilled u" and "updated = Fulfilled ()"
  shows "store_calls (onSubmit_signup auth db created updated saved v st) = store_calls st @
           [SetDoc ''users'' (uid u)
              [(''uid'', Str (uid u)), (''name'', Str (su_name v)), (''email'', Str (su_email v)),
               (''upvoteScore'', Num 0)]]
    \<and> (is_rejected saved \<longrightarrow>
          su_error (onSubmit_signup auth db created updated saved v st) = Some signup_incomplete
          \<and> auth_calls (onSubmit_signup auth db created updated saved v st) = auth_calls st @
              [CreateUserWithEmailAndPassword (su_email v) (su_password v),
               UpdateProfile (uid u) (su_name v)]
          \<and> pushed (onSubmit_signup auth db created updated saved v st) = pushed st
          \<and> toasts (onSubmit_signup auth db created updated saved v st) = toasts st)
    \<and> signup_incomplete \<noteq> creation_failed e"
  using assms signup_messages_distinct [of e]
  by (simp add: onSubmit_signup_def Let_def is_rejected_def split: settled.splits)

lemma signup_profile_write_example:
  "store_calls (onSubmit_signup True True (Fulfilled alice) (Fulfilled ()) (Rejected unavailable)
      signup_example signup_init)
     = [SetDoc ''users'' (js ''U1'')
          [(''uid'', Str (js ''U1'')), (''name'', Str (js ''Alice'')),
           (''email'', Str (js ''alice@example.com'')), (''upvoteScore'', Num 0)]]
   \<and> su_error (onSubmit_signup True True (Fulfilled alice) (Fulfilled ()) (Rejected unavailable)
      signup_example signup_init) = Some signup_incomplete"
  using signup_profile_write [of True True "Fulfilled alice" alice "Fulfilled ()"
      "Rejected unavailable" signup_example signup_init unavailable]
  by (simp add: is_rejected_def signup_init_def signup_example_def alice_def)

lemma creation_failed_network:
  "creation_failed network_failed
     = js ''Account Creation Failed: An unknown error occurred during account creation.''"
  by (simp add: creation_failed_def network_failed_def js_def)

text \<open>
  Claim C8, at the input where the code departs from it. The identity-creation call is
  issued and fulfilled, and the update of the identity's display name, which stands in
  the same \<^verbatim>\<open>try\<close>, is rejected. The handler then issues no write of
  \<^verbatim>\<open>users/{uid}\<close> at all, and the message it shows is the one of a failed account
  creation, not the one of an incomplete sign-up, although the identity exists: no call
  after the creation removes it.
\<close>

theorem signup_identity_without_profile:
  "store_calls (onSubmit_signup True True (Fulfilled alice) (Rejected network_failed) (Fulfilled ())
      signup_example signup_init) = []
   \<and> su_error (onSubmit_signup True True (Fulfilled alice) (Rejected network_failed) (Fulfilled ())
      signup_example signup_init)
      = Some (js ''Account Creation Failed: An unknown error occurred during account creation.'')
   \<and> su_error (onSubmit_signup True True (Fulfilled alice) (Rejected network_failed) (Fulfilled ())
      signup_example signup_init) \<noteq> Some signup_incomplete
   \<and> auth_calls (onSubmit_signup True True (Fulfilled alice) (Rejected network_failed) (Fulfilled ())
      signup_example signup_init)
      = [CreateUserWithEmailAndPassword (js ''alice@example.com'') (js ''secret1''),
         UpdateProfile (js ''U1'') (js ''Alice'')]"
  using signup_messages_distinct [of network_failed] creation_failed_network
  by (simp add: onSubmit_signup_def signup_init_def signup_example_def alice_def Let_def)

section \<open>Resolution is never undone\<close>

text \<open>The shapes of the calls this codebase issues.\<close>

lemma issued_cases:
  assumes "issued c"
  shows "(\<exists>fs. c = AddDoc ''doubts'' fs \<and> map_of fs ''isResolved'' = Some (Bool False))
    \<or> (\<exists>fs. c = AddDoc ''notes'' fs) \<or> (\<exists>fs. c = AddDoc ''answers'' fs)
    \<or> (\<exists>i. c = UpdateDoc ''doubts'' i [(''isResolved'', Bool True)])
    \<or> (\<exists>i fs. c = SetDoc ''users'' i fs)"
  using assms
proof cases
  case (post_doubt st usr db res v)
  then show ?thesis
    by (auto simp: onSubmit_doubt_def form_reset_def Let_def
        split: option.splits settled.splits if_splits)
next
  case (share_resource st' usr db res v')
  then show ?thesis
    by (auto simp: onSubmit_share_def form_reset_def Let_def
        split: option.splits settled.splits if_splits)
next
  case (submit_answer dl usr db res d)
  then show ?thesis
    by (auto simp: handleSubmit_answer_def Let_def split: option.splits settled.splits if_splits)
next
  case (mark_resolved fd db ures i)
  then show ?thesis
    by (auto simp: handleMarkAsResolved_def Let_def split: settled.splits if_splits)
next
  case (sign_up sp auth db created updated saved sv)
  then show ?thesis
    by (auto simp: onSubmit_signup_def Let_def split: settled.splits if_splits)
qed

lemma issued_shapes:
  "issued (AddDoc ''doubts'' fs) \<Longrightarrow> map_of fs ''isResolved'' = Some (Bool False)"
  "issued (UpdateDoc col j us) \<Longrightarrow> col = ''doubts'' \<and> us = [(''isResolved'', Bool True)]"
  "issued (SetDoc col j us) \<Longrightarrow> col = ''users''"
  using issued_cases [of "AddDoc ''doubts'' fs"] issued_cases [of "UpdateDoc col j us"]
    issued_cases [of "SetDoc col j us"]
  by auto

lemma apply_call_resolved:
  assumes "issued c" and "apply_call new s c = Some s'" and "resolved s i"
  shows "resolved s' i"
proof -
  from assms(3) obtain d where d: "s (''doubts'', i) = Some d" "d ''isResolved'' = Some (Bool True)"
    by (auto simp: resolved_def split: option.splits)
  from issued_cases [OF assms(1)] show ?thesis
  proof (elim disjE exE conjE)
    fix fs assume "c = AddDoc ''doubts'' fs"
    with assms(2) d show ?thesis by (auto simp: resolved_def split: if_splits)
  next
    fix fs assume "c = AddDoc ''notes'' fs"
    with assms(2) d show ?thesis by (auto simp: resolved_def split: if_splits)
  next
    fix fs assume "c = AddDoc ''answers'' fs"
    with assms(2) d show ?thesis by (auto simp: resolved_def split: if_splits)
  next
    fix j assume "c = UpdateDoc ''doubts'' j [(''isResolved'', Bool True)]"
    with assms(2) d show ?thesis by (auto simp: resolved_def split: option.splits if_splits)
  next
    fix j fs assume "c = SetDoc ''users'' j fs"
    with assms(2) d show ?thesis by (auto simp: resolved_def)
  qed
qed

lemma apply_calls_resolved:
  assumes "\<forall>nc\<in>set cs. issued (snd nc)" and "resolved s i"
  shows "resolved (apply_calls s cs) i"
  using assms
proof (induction cs arbitrary: s)
  case Nil
  then show ?case by simp
next
  case (Cons nc cs)
  obtain new c where nc: "nc = (new, c)" by (cases nc)
  from Cons.prems(1) nc have c: "issued c" by simp
  show ?case
  proof (cases "apply_call new s c")
    case None
    with Cons.IH [of s] Cons.prems nc show ?thesis by simp
  next
    case (Some s1)
    with c Cons.prems(2) have "resolved s1 i" using apply_call_resolved by blast
    with Cons.IH [of s1] Cons.prems(1) nc Some show ?thesis by simp
  qed
qed

text \<open>
  Claim C4. Let the store receive any run of calls that this codebase issues, and carry
  out any of them: a doubt whose \<^verbatim>\<open>isResolved\<close> is true before the run has it true
  after the run. For the
  calls themselves: every \<^verbatim>\<open>addDoc\<close> to the collection \<^verbatim>\<open>doubts\<close> writes
  \<^verbatim>\<open>isResolved: false\<close>, every \<^verbatim>\<open>updateDoc\<close> is on a doubt and writes the one field
  \<^verbatim>\<open>isResolved: true\<close>, and every \<^verbatim>\<open>setDoc\<close> is on the collection \<^verbatim>\<open>users\<close>.
\<close>

theorem resolved_is_stable:
  "((\<forall>nc\<in>set cs. issued (snd nc)) \<and> resolved s i \<longrightarrow> resolved (apply_calls s cs) i)
   \<and> (issued (AddDoc ''doubts'' fs) \<longrightarrow> map_of fs ''isResolved'' = Some (Bool False))
   \<and> (issued (UpdateDoc col j us) \<longrightarrow> col = ''doubts'' \<and> us = [(''isResolved'', Bool True)])
   \<and> (issued (SetDoc col j us) \<longrightarrow> col = ''users'')"
  using apply_calls_resolved [of cs s i] issued_shapes(1) [of fs]
    issued_shapes(2) [of col j us] issued_shapes(3) [of col j us]
  by blast

lemma issued_post_example: "issued (snd (calls_example ! 0))"
proof -
  have "snd (calls_example ! 0) \<in> set (drop (length (store_calls (page_with doubt_example)))
      (store_calls (onSubmit_doubt (Some alice) True (Fulfilled (js ''D2'')) doubt_example
         (page_with doubt_example))))"
    by (simp add: calls_example_def onSubmit_doubt_def page_with_def form_reset_def Let_def
        alice_def doubt_example_def nullable_def)
  then show ?thesis by (rule issued.post_doubt)
qed

lemma issued_resolve_example: "issued (snd (calls_example ! 1))"
proof -
  have "snd (calls_example ! 1) \<in> set (drop (length (store_calls feed_example))
      (store_calls (handleMarkAsResolved True (Fulfilled ()) (js ''D1'') feed_example)))"
    by (simp add: calls_example_def handleMarkAsResolved_def feed_example_def Let_def)
  then show ?thesis by (rule issued.mark_resolved)
qed

theorem resolved_is_stable_witness:
  "resolved (apply_calls store_example calls_example) (js ''D1'')
   \<and> apply_calls store_example calls_example (''doubts'', js ''D2'')
       = Some (map_of
           [(''userId'', Str (js ''U1'')), (''userName'', Str (js ''Alice'')),
            (''subject'', Str (js ''DSA'')), (''description'', Str (js ''What is a red-black tree?'')),
            (''createdAt'', ServerTimestamp), (''isResolved'', Bool False)])"
proof -
  have i: "\<forall>nc\<in>set calls_example. issued (snd nc)"
    using issued_post_example issued_resolve_example by (simp add: calls_example_def)
  have "resolved store_example (js ''D1'')"
    by (simp add: resolved_def store_example_def)
  with i have "resolved (apply_calls store_example calls_example) (js ''D1'')"
    using resolved_is_stable [of calls_example store_example "js ''D1''"] by blast
  moreover have "apply_calls store_example calls_example (''doubts'', js ''D2'')
       = Some (map_of
           [(''userId'', Str (js ''U1'')), (''userName'', Str (js ''Alice'')),
            (''subject'', Str (js ''DSA'')), (''description'', Str (js ''What is a red-black tree?'')),
            (''createdAt'', ServerTimestamp), (''isResolved'', Bool False)])"
    by (simp add: calls_example_def store_example_def js_def)
  ultimately show ?thesis by simp
qed

end
